theory Spec2Isabelle
  imports Main "HOL-Library.Sublist"
begin

section \<open>JavaScript strings and numbers\<close>

text \<open>
  A JavaScript string is a sequence of UTF-16 code units. It is modelled by \<open>string\<close>,
  one \<open>char\<close> per code unit, which covers the code units 0 to 255: \<open>CHR 0xE1\<close> is the
  code unit of a-acute, \<open>CHR 0xA0\<close> the no-break space. \<open>length\<close> is the \<open>.length\<close>
  of the source. A JavaScript number that holds an integer is modelled by \<open>int\<close>, which
  is exact below \<open>2 ^ 53\<close>; \<open>NaN\<close> is \<open>None\<close>.
\<close>

text \<open>The white space that \<open>trim\<close>, \<open>parseInt\<close> and \<open>BigInt\<close> skip: TAB, LF, VT, FF, CR,
  SP and NBSP are the ones among the first 256 code units.\<close>

definition isStrWhiteSpaceChar :: "char \<Rightarrow> bool" where
  "isStrWhiteSpaceChar c \<longleftrightarrow>
     c \<in> set [CHR 0x09, CHR 0x0A, CHR 0x0B, CHR 0x0C, CHR 0x0D, CHR 0x20, CHR 0xA0]"

definition trimStart :: "string \<Rightarrow> string" where
  "trimStart s = dropWhile isStrWhiteSpaceChar s"

definition trimEnd :: "string \<Rightarrow> string" where
  "trimEnd s = rev (dropWhile isStrWhiteSpaceChar (rev s))"

definition trim :: "string \<Rightarrow> string" where
  "trim s = trimEnd (trimStart s)"

text \<open>\<open>s.includes(c)\<close> for a one-character needle.\<close>

definition includes_str :: "string \<Rightarrow> char \<Rightarrow> bool" where
  "includes_str s c \<longleftrightarrow> c \<in> set s"

text \<open>\<open>s.substring(a, b)\<close> for constants \<open>a \<le> b\<close>; both ends are clamped to the length.\<close>

definition substring :: "nat \<Rightarrow> nat \<Rightarrow> string \<Rightarrow> string" where
  "substring a b s = take (b - a) (drop a s)"

text \<open>\<open>s.padStart(n, c)\<close> for a one-character filler.\<close>

definition padStart :: "nat \<Rightarrow> char \<Rightarrow> string \<Rightarrow> string" where
  "padStart n c s = replicate (n - length s) c @ s"

text \<open>The regular expression class \<open>\d\<close>: the ten ASCII digits.\<close>

definition isDigit :: "char \<Rightarrow> bool" where
  "isDigit c \<longleftrightarrow> 48 \<le> (of_char c :: nat) \<and> (of_char c :: nat) \<le> 57"

definition digitVal :: "char \<Rightarrow> nat" where
  "digitVal c = of_char c - 48"

definition digitChar :: "nat \<Rightarrow> char" where
  "digitChar d = char_of (48 + d)"

text \<open>\<open>toString()\<close> of a non-negative integer, and of an integer (a number or a bigint).\<close>

fun natToString :: "nat \<Rightarrow> string" where
  "natToString n =
     (if n < 10 then [digitChar n] else natToString (n div 10) @ [digitChar (n mod 10)])"

definition intToString :: "int \<Rightarrow> string" where
  "intToString i = (if i < 0 then CHR ''-'' # natToString (nat (- i)) else natToString (nat i))"

text \<open>The value of a digit in a radix up to 36, if the character is a digit of that radix.\<close>

definition radixDigit :: "nat \<Rightarrow> char \<Rightarrow> nat option" where
  "radixDigit r c =
     (let n = (of_char c :: nat);
          v = (if 48 \<le> n \<and> n \<le> 57 then Some (n - 48)
               else if 97 \<le> n \<and> n \<le> 122 then Some (n - 87)
               else if 65 \<le> n \<and> n \<le> 90 then Some (n - 55)
               else None)
      in case v of None \<Rightarrow> None | Some d \<Rightarrow> if d < r then Some d else None)"

text \<open>Reads a whole string of digits of a radix; \<open>None\<close> when a character is not one.
  The value read is an unbounded integer.\<close>

fun parseDigits :: "nat \<Rightarrow> string \<Rightarrow> int \<Rightarrow> int option" where
  "parseDigits r [] acc = Some acc"
| "parseDigits r (c # cs) acc =
     (case radixDigit r c of
        None \<Rightarrow> None
      | Some d \<Rightarrow> parseDigits r cs (acc * int r + int d))"

definition nonEmptyDigits :: "nat \<Rightarrow> string \<Rightarrow> int option" where
  "nonEmptyDigits r ds = (if ds = [] then None else parseDigits r ds 0)"

text \<open>
  \<open>BigInt(str)\<close> on a string (the specification's StringToBigInt): surrounding white space
  is dropped; the empty text is \<open>0n\<close>; then either a radix prefix \<open>0x\<close>, \<open>0o\<close>, \<open>0b\<close>
  with digits of that radix, or decimal digits with an optional sign. \<open>None\<close> is the
  SyntaxError.
\<close>

definition hasRadixPrefix :: "string \<Rightarrow> string \<Rightarrow> bool" where
  "hasRadixPrefix t letters \<longleftrightarrow> 2 \<le> length t \<and> hd t = CHR ''0'' \<and> t ! 1 \<in> set letters"

definition StringToBigInt :: "string \<Rightarrow> int option" where
  "StringToBigInt str =
     (let t = trim str in
      if t = [] then Some 0
      else if hasRadixPrefix t ''xX'' then nonEmptyDigits 16 (drop 2 t)
      else if hasRadixPrefix t ''oO'' then nonEmptyDigits 8 (drop 2 t)
      else if hasRadixPrefix t ''bB'' then nonEmptyDigits 2 (drop 2 t)
      else if hd t = CHR ''+'' then nonEmptyDigits 10 (tl t)
      else if hd t = CHR ''-'' then map_option uminus (nonEmptyDigits 10 (tl t))
      else nonEmptyDigits 10 t)"

text \<open>The bigint remainder \<open>a % b\<close> for \<open>b > 0\<close>: it has the sign of the dividend.\<close>

definition bigintRem :: "int \<Rightarrow> int \<Rightarrow> int" where
  "bigintRem a b = (if a < 0 then - ((- a) mod b) else a mod b)"

text \<open>
  \<open>parseInt(s, 10)\<close>: leading white space is skipped, then an optional sign, then the
  longest run of decimal digits; no digit gives \<open>NaN\<close>. What follows the digits is ignored.
\<close>

definition parseInt :: "string \<Rightarrow> int option" where
  "parseInt str =
     (let s = trimStart str;
          neg = (s \<noteq> [] \<and> hd s = CHR ''-'');
          s' = (if s \<noteq> [] \<and> (hd s = CHR ''+'' \<or> hd s = CHR ''-'') then tl s else s);
          z = takeWhile isDigit s'
      in if z = [] then None
         else case parseDigits 10 z 0 of
                None \<Rightarrow> None
              | Some m \<Rightarrow> Some (if neg then - m else m))"

text \<open>
  \<open>s.split(sep)\<close>: the pieces between the occurrences of the separator, scanned from the
  left. An empty separator splits into the single characters.
\<close>

function splitBy :: "string \<Rightarrow> string \<Rightarrow> string \<Rightarrow> string list" where
  "splitBy sep cur s =
     (if s = [] then [cur]
      else if sep \<noteq> [] \<and> prefix sep s then cur # splitBy sep [] (drop (length sep) s)
      else splitBy sep (cur @ [hd s]) (tl s))"
  by pat_completeness auto
termination
  by (relation "measure (\<lambda>(sep, cur, s). length s)") auto

declare splitBy.simps [simp del]

definition split :: "string \<Rightarrow> string \<Rightarrow> string list" where
  "split s sep = (if sep = [] then map (\<lambda>c. [c]) s else splitBy sep [] s)"

section \<open>Errors (types/errors.ts)\<close>

datatype CNJErrorType =
    INVALID_FORMAT | INVALID_LENGTH | INVALID_VERIFYING_DIGIT | INVALID_SEGMENT
  | INVALID_COURT | INVALID_SOURCE_UNIT | INVALID_YEAR | DISTRICT_NOT_FOUND
  | CALCULATION_ERROR

text \<open>The exception class; its \<open>details\<close> object is only carried along and is left out.\<close>

record CNJValidationError =
  etype :: CNJErrorType
  message :: string
  ecode :: string

definition invalidFormat :: "string \<Rightarrow> CNJValidationError" where
  "invalidFormat received =
     \<lparr>etype = INVALID_FORMAT,
      message = ''Formato CNJ inv'' @ [CHR 0xE1] @ ''lido: '' @ received
                @ ''. Esperado: NNNNNNN-DD.AAAA.J.CT.0000 ou NNNNNNNDDAAAAJCT0000'',
      ecode = ''INVALID_FORMAT''\<rparr>"

definition invalidLength :: "string \<Rightarrow> nat \<Rightarrow> CNJValidationError" where
  "invalidLength received expectedLength =
     \<lparr>etype = INVALID_LENGTH,
      message = ''Tamanho CNJ inv'' @ [CHR 0xE1] @ ''lido: '' @ natToString (length received)
                @ ''. Esperado: '' @ natToString expectedLength @ '' caracteres'',
      ecode = ''INVALID_LENGTH''\<rparr>"

definition invalidSegment :: "string \<Rightarrow> CNJValidationError" where
  "invalidSegment seg =
     \<lparr>etype = INVALID_SEGMENT,
      message = ''C'' @ [CHR 0xF3] @ ''digo de segmento inv'' @ [CHR 0xE1] @ ''lido: '' @ seg
                @ ''. Deve ser entre 1 e 9'',
      ecode = ''INVALID_SEGMENT''\<rparr>"

definition invalidCourt :: "string \<Rightarrow> int \<Rightarrow> CNJValidationError" where
  "invalidCourt crt seg =
     \<lparr>etype = INVALID_COURT,
      message = ''C'' @ [CHR 0xF3] @ ''digo de tribunal inv'' @ [CHR 0xE1] @ ''lido: '' @ crt
                @ '' para segmento '' @ intToString seg,
      ecode = ''INVALID_COURT''\<rparr>"

section \<open>The verifying digit (core/validator.ts)\<close>

definition MOD :: int where "MOD = 97"
definition SUB :: int where "SUB = 98"

text \<open>The error built in the \<open>catch\<close> clause of \<open>calculateVerifyingDigit\<close>.\<close>

definition calculationError :: CNJValidationError where
  "calculationError =
     \<lparr>etype = CALCULATION_ERROR,
      message = ''Erro no c'' @ [CHR 0xE1] @ ''lculo do d'' @ [CHR 0xED] @ ''gito verificador'',
      ecode = ''CALC_ERROR''\<rparr>"

text \<open>The \<open>try\<close> block fails exactly when \<open>BigInt\<close> rejects the string; the \<open>catch\<close> turns
  that into the calculation error.\<close>

definition calculateVerifyingDigit :: "string \<Rightarrow> CNJValidationError + string" where
  "calculateVerifyingDigit argNumber =
     (case StringToBigInt argNumber of
        None \<Rightarrow> Inl calculationError
      | Some number \<Rightarrow>
          (let remainder = bigintRem number MOD;
               digit = SUB - remainder
           in Inr (padStart 2 (CHR ''0'') (intToString digit))))"

section \<open>Segments (types/segment.ts, data/segments.ts)\<close>

record Segment =
  number :: int
  name :: string
  short :: string

definition SEGMENT_NAMES :: "int \<Rightarrow> string option" where
  "SEGMENT_NAMES n =
     (if n = 1 then Some ''Supremo Tribunal Federal''
      else if n = 2 then Some (''Conselho Nacional de Justi'' @ [CHR 0xE7] @ ''a'')
      else if n = 3 then Some (''Superior Tribunal de Justi'' @ [CHR 0xE7] @ ''a'')
      else if n = 4 then Some (''Justi'' @ [CHR 0xE7] @ ''a Federal'')
      else if n = 5 then Some (''Justi'' @ [CHR 0xE7] @ ''a do Trabalho'')
      else if n = 6 then Some (''Justi'' @ [CHR 0xE7] @ ''a Eleitoral'')
      else if n = 7 then Some (''Justi'' @ [CHR 0xE7] @ ''a Militar da Uni'' @ [CHR 0xE3] @ ''o'')
      else if n = 8 then Some (''Justi'' @ [CHR 0xE7] @ ''a dos Estados e do Distrito Federal e Territ''
                               @ [CHR 0xF3] @ ''rios'')
      else if n = 9 then Some (''Justi'' @ [CHR 0xE7] @ ''a Militar Estadual'')
      else None)"

definition SEGMENT_SHORTS :: "int \<Rightarrow> string option" where
  "SEGMENT_SHORTS n =
     (if n = 1 then Some ''STF'' else if n = 2 then Some ''CNJ'' else if n = 3 then Some ''STJ''
      else if n = 4 then Some ''TRF'' else if n = 5 then Some ''TRT'' else if n = 6 then Some ''TRE''
      else if n = 7 then Some ''STM'' else if n = 8 then Some ''TJ'' else if n = 9 then Some ''TJM''
      else None)"

definition SEGMENTS :: "int \<Rightarrow> Segment option" where
  "SEGMENTS n =
     (case (SEGMENT_NAMES n, SEGMENT_SHORTS n) of
        (Some nm, Some sh) \<Rightarrow> Some \<lparr>number = n, name = nm, short = sh\<rparr>
      | _ \<Rightarrow> None)"

definition getSegment :: "string \<Rightarrow> Segment option" where
  "getSegment segmentCode =
     (case parseInt segmentCode of
        None \<Rightarrow> None
      | Some code \<Rightarrow> if code < 1 \<or> code > 9 then None else SEGMENTS code)"

section \<open>Districts (types/district.ts, data/districts.ts)\<close>

record DistrictInfo =
  sourceUnit :: string
  uf :: string
  district :: string

text \<open>
  \<open>DISTRICTS\<close> is a module-level object filled from \<open>districts.json\<close>, which is data and
  not code; it is the state of this module, passed to every function that reads it, and
  \<open>addDistrict\<close> returns the updated object. It is a plain JavaScript object, so reading
  \<open>DISTRICTS[key]\<close> and testing \<open>key in DISTRICTS\<close> also see what the object inherits from
  its prototype, and assigning to the key \<open>__proto__\<close> replaces the prototype. The model
  keeps both parts: the object's own entries, and its prototype, which is
  \<open>Object.prototype\<close> (\<open>None\<close>) until a record has been assigned to \<open>__proto__\<close>
  (\<open>Some\<close> of that record, a plain object whose own prototype is \<open>Object.prototype\<close>).
\<close>

record DistrictMap =
  entries :: "string \<rightharpoonup> DistrictInfo"
  prototype :: "DistrictInfo option"

text \<open>The dataset with no entry: the object \<open>{}\<close>.\<close>

definition noDistricts :: DistrictMap where
  "noDistricts = \<lparr>entries = Map.empty, prototype = None\<rparr>"

text \<open>What \<open>DISTRICTS[key]\<close> can evaluate to: a record, a string field of a record that
  became the prototype, a built-in method of \<open>Object.prototype\<close>, or that object itself.\<close>

datatype JSValue =
    DistrictValue DistrictInfo
  | StringValue string
  | BuiltinValue string
  | ObjectPrototypeValue

text \<open>The data properties of \<open>Object.prototype\<close> (ECMAScript, with its annex B); the
  accessor \<open>__proto__\<close> is treated apart.\<close>

definition objectPrototypeMethods :: "string list" where
  "objectPrototypeMethods =
     [''constructor'', ''hasOwnProperty'', ''isPrototypeOf'', ''propertyIsEnumerable'',
      ''toLocaleString'', ''toString'', ''valueOf'', ''__defineGetter__'', ''__defineSetter__'',
      ''__lookupGetter__'', ''__lookupSetter__'']"

text \<open>Reading a property along the prototype chain, from the prototype upwards. The getter
  of \<open>__proto__\<close> returns the prototype itself.\<close>

definition prototypeLookup :: "DistrictInfo option \<Rightarrow> string \<Rightarrow> JSValue option" where
  "prototypeLookup p key =
     (case p of
        None \<Rightarrow>
          if key = ''__proto__'' then Some ObjectPrototypeValue
          else if key \<in> set objectPrototypeMethods then Some (BuiltinValue key)
          else None
      | Some r \<Rightarrow>
          if key = ''sourceUnit'' then Some (StringValue (DistrictInfo.sourceUnit r))
          else if key = ''uf'' then Some (StringValue (DistrictInfo.uf r))
          else if key = ''district'' then Some (StringValue (DistrictInfo.district r))
          else if key = ''__proto__'' then Some (DistrictValue r)
          else if key \<in> set objectPrototypeMethods then Some (BuiltinValue key)
          else None)"

text \<open>\<open>DISTRICTS[key]\<close>: an own entry first, then the prototype chain; \<open>None\<close> is
  \<open>undefined\<close>.\<close>

definition getProperty :: "DistrictMap \<Rightarrow> string \<Rightarrow> JSValue option" where
  "getProperty DISTRICTS key =
     (case entries DISTRICTS key of
        Some d \<Rightarrow> Some (DistrictValue d)
      | None \<Rightarrow> prototypeLookup (prototype DISTRICTS) key)"

text \<open>Truthiness: every object and function, and every string but the empty one.\<close>

fun truthy :: "JSValue \<Rightarrow> bool" where
  "truthy (StringValue s) = (s \<noteq> [])"
| "truthy _ = True"

text \<open>\<open>DISTRICTS[key] || null\<close>; \<open>None\<close> is \<open>null\<close>.\<close>

definition getDistrictInfo :: "DistrictMap \<Rightarrow> string \<Rightarrow> JSValue option" where
  "getDistrictInfo DISTRICTS key =
     (case getProperty DISTRICTS key of
        None \<Rightarrow> None
      | Some v \<Rightarrow> if truthy v then Some v else None)"

definition generateDistrictKey :: "string \<Rightarrow> string \<Rightarrow> string \<Rightarrow> string" where
  "generateDistrictKey seg crt unit = seg @ ''.'' @ crt @ ''.'' @ unit"

text \<open>
  \<open>DISTRICTS[key] = district\<close>. For the key \<open>__proto__\<close> the assignment finds the setter
  that \<open>Object.prototype\<close> provides, which makes the record the prototype of \<open>DISTRICTS\<close>,
  unless the object has an own entry of that name (as a JSON text can give it). Every
  other key gets an own entry.
\<close>

definition addDistrict :: "string \<Rightarrow> DistrictInfo \<Rightarrow> DistrictMap \<Rightarrow> DistrictMap" where
  "addDistrict key d DISTRICTS =
     (if key = ''__proto__'' \<and> entries DISTRICTS key = None
      then DISTRICTS\<lparr>prototype := Some d\<rparr>
      else DISTRICTS\<lparr>entries := (entries DISTRICTS)(key \<mapsto> d)\<rparr>)"

text \<open>\<open>key in DISTRICTS\<close>: own and inherited properties alike.\<close>

definition hasDistrict :: "DistrictMap \<Rightarrow> string \<Rightarrow> bool" where
  "hasDistrict DISTRICTS key \<longleftrightarrow> getProperty DISTRICTS key \<noteq> None"

text \<open>\<open>districtInfo?.field || ''\<close>: only a record has the field; on \<open>null\<close>, a string, a
  function or \<open>Object.prototype\<close> the read gives \<open>undefined\<close>, hence the empty string.\<close>

definition fieldOrEmpty :: "(DistrictInfo \<Rightarrow> string) \<Rightarrow> JSValue option \<Rightarrow> string" where
  "fieldOrEmpty field districtInfo =
     (case districtInfo of Some (DistrictValue di) \<Rightarrow> field di | _ \<Rightarrow> '''')"

section \<open>Decomposition (core/decomposer.ts)\<close>

record DecomposedCNJ =
  lawsuitCNJFormat :: string
  lawsuitNumber :: string
  verifyingDigit :: string
  protocolYear :: string
  segment :: string
  court :: string
  sourceUnit :: string
  argNumber :: string
  district :: string
  uf :: string
  tj :: string

definition MATH_SUFFIX :: string where "MATH_SUFFIX = ''00''"

definition generateTJCode :: "string \<Rightarrow> string \<Rightarrow> string \<Rightarrow> Segment option \<Rightarrow> string" where
  "generateTJCode seg crt uf_code segmentInfo =
     (case segmentInfo of
        None \<Rightarrow> ''''
      | Some info \<Rightarrow>
          if number info \<in> set [1, 2, 3, 4, 7] then
            (case parseInt crt of
               None \<Rightarrow> ''''
             | Some courtNumber \<Rightarrow> short info @ intToString courtNumber)
          else short info @ uf_code)"

text \<open>The six components, in the order of the source's parameter object.\<close>

definition buildDecomposedCNJ ::
  "DistrictMap \<Rightarrow> string \<Rightarrow> string \<Rightarrow> string \<Rightarrow> string \<Rightarrow> string \<Rightarrow> string \<Rightarrow> DecomposedCNJ" where
  "buildDecomposedCNJ DISTRICTS lawsuit digit year seg crt unit =
     (let arg = lawsuit @ year @ seg @ crt @ unit @ MATH_SUFFIX;
          districtKey = generateDistrictKey seg crt unit;
          districtInfo = getDistrictInfo DISTRICTS districtKey;
          segmentInfo = getSegment seg;
          uf_code = fieldOrEmpty DistrictInfo.uf districtInfo;
          tj_code = generateTJCode seg crt uf_code segmentInfo;
          fmt = lawsuit @ ''-'' @ digit @ ''.'' @ year @ ''.'' @ seg @ ''.'' @ crt @ ''.'' @ unit
      in \<lparr>lawsuitCNJFormat = fmt, lawsuitNumber = lawsuit, verifyingDigit = digit,
          protocolYear = year, segment = seg, court = crt, sourceUnit = unit, argNumber = arg,
          district = fieldOrEmpty DistrictInfo.sourceUnit districtInfo,
          uf = uf_code, tj = tj_code\<rparr>)"

definition decomposeFormattedCNJ :: "DistrictMap \<Rightarrow> string \<Rightarrow> CNJValidationError + DecomposedCNJ" where
  "decomposeFormattedCNJ DISTRICTS cnj =
     (case split cnj ''-'' of
        [lawsuit, rest] \<Rightarrow>
          (case split rest ''.'' of
             [digit, year, seg, crt, unit] \<Rightarrow>
               Inr (buildDecomposedCNJ DISTRICTS lawsuit digit year seg crt unit)
           | _ \<Rightarrow> Inl (invalidFormat cnj))
      | _ \<Rightarrow> Inl (invalidFormat cnj))"

definition decomposeUnformattedCNJ :: "DistrictMap \<Rightarrow> string \<Rightarrow> CNJValidationError + DecomposedCNJ" where
  "decomposeUnformattedCNJ DISTRICTS cnj =
     (if length cnj \<noteq> 20 then Inl (invalidLength cnj 20)
      else Inr (buildDecomposedCNJ DISTRICTS
                  (substring 0 7 cnj) (substring 7 9 cnj) (substring 9 13 cnj)
                  (substring 13 14 cnj) (substring 14 16 cnj) (substring 16 20 cnj)))"

definition decomposeCNJ :: "DistrictMap \<Rightarrow> string \<Rightarrow> CNJValidationError + DecomposedCNJ" where
  "decomposeCNJ DISTRICTS cnj =
     (if length cnj > 25 \<or> length cnj < 20 then Inl (invalidLength cnj 20)
      else if includes_str cnj (CHR ''-'') then decomposeFormattedCNJ DISTRICTS cnj
      else decomposeUnformattedCNJ DISTRICTS cnj)"

text \<open>The tests \<open>/^\d{n}$/\<close> of \<open>validateCNJComponents\<close>: exactly \<open>n\<close> digits.\<close>

definition digitsExactly :: "nat \<Rightarrow> string \<Rightarrow> bool" where
  "digitsExactly n s \<longleftrightarrow> length s = n \<and> list_all isDigit s"

definition componentError :: "string \<Rightarrow> string \<Rightarrow> CNJValidationError" where
  "componentError msg c = \<lparr>etype = INVALID_FORMAT, message = msg, ecode = c\<rparr>"

definition validateCNJComponents ::
  "string \<Rightarrow> string \<Rightarrow> string \<Rightarrow> string \<Rightarrow> string \<Rightarrow> string \<Rightarrow> CNJValidationError + unit" where
  "validateCNJComponents lawsuit digit year seg crt unit =
     (if \<not> digitsExactly 7 lawsuit then
        Inl (componentError (''N'' @ [CHR 0xFA] @ ''mero do processo deve ter 7 d'' @ [CHR 0xED] @ ''gitos'')
               ''INVALID_LAWSUIT_NUMBER'')
      else if \<not> digitsExactly 2 digit then
        Inl (componentError (''D'' @ [CHR 0xED] @ ''gito verificador deve ter 2 d'' @ [CHR 0xED] @ ''gitos'')
               ''INVALID_VERIFYING_DIGIT'')
      else if \<not> digitsExactly 4 year then
        Inl (componentError ''Protocol year must have 4 digits'' ''INVALID_PROTOCOL_YEAR'')
      else if \<not> digitsExactly 1 seg then
        Inl (componentError (''Segmento deve ter 1 d'' @ [CHR 0xED] @ ''gito'') ''INVALID_SEGMENT'')
      else if \<not> digitsExactly 2 crt then
        Inl (componentError (''C'' @ [CHR 0xF3] @ ''digo do tribunal deve ter 2 d'' @ [CHR 0xED] @ ''gitos'')
               ''INVALID_COURT'')
      else if \<not> digitsExactly 4 unit then
        Inl (componentError (''C'' @ [CHR 0xF3] @ ''digo da unidade de origem deve ter 4 d'' @ [CHR 0xED]
                             @ ''gitos'') ''INVALID_SOURCE_UNIT'')
      else Inr ())"

section \<open>Validation (core/validator.ts, continued)\<close>

record ValidationResult =
  isValid :: bool
  expectedDigit :: "string option"
  receivedDigit :: "string option"
  error :: "string option"

text \<open>The body of the \<open>try\<close> block of \<open>validateCNJ\<close>; \<open>Inl\<close> is an exception leaving it.\<close>

definition validateCNJ_try :: "DistrictMap \<Rightarrow> string \<Rightarrow> CNJValidationError + ValidationResult" where
  "validateCNJ_try DISTRICTS cnj =
     (case decomposeCNJ DISTRICTS cnj of
        Inl e \<Rightarrow> Inl e
      | Inr decomposed \<Rightarrow>
          (case calculateVerifyingDigit (argNumber decomposed) of
             Inl e \<Rightarrow> Inl e
           | Inr expected \<Rightarrow>
               (let valid = (verifyingDigit decomposed = expected)
                in Inr \<lparr>isValid = valid, expectedDigit = Some expected,
                        receivedDigit = Some (verifyingDigit decomposed),
                        error = (if valid then None
                                 else Some (''D'' @ [CHR 0xED] @ ''gito verificador inv'' @ [CHR 0xE1]
                                            @ ''lido. Esperado: '' @ expected @ '', Recebido: ''
                                            @ verifyingDigit decomposed))\<rparr>)))"

text \<open>The \<open>catch\<close> clause: every exception is an \<open>Error\<close> here, so its message is reported.\<close>

definition validateCNJ :: "DistrictMap \<Rightarrow> string \<Rightarrow> ValidationResult" where
  "validateCNJ DISTRICTS cnj =
     (case validateCNJ_try DISTRICTS cnj of
        Inr r \<Rightarrow> r
      | Inl e \<Rightarrow> \<lparr>isValid = False, expectedDigit = None, receivedDigit = None,
                  error = Some (message e)\<rparr>)"

definition normalizeCNJ :: "string \<Rightarrow> string" where
  "normalizeCNJ cnj = filter isDigit cnj"

definition formatCNJ :: "string \<Rightarrow> CNJValidationError + string" where
  "formatCNJ cnj =
     (let normalized = normalizeCNJ cnj in
      if length normalized \<noteq> 20 then Inl (invalidLength cnj 20)
      else Inr (substring 0 7 normalized @ ''-'' @ substring 7 9 normalized @ ''.''
                @ substring 9 13 normalized @ ''.'' @ substring 13 14 normalized @ ''.''
                @ substring 14 16 normalized @ ''.'' @ substring 16 20 normalized))"

section \<open>Origin court (types/court.ts, core/court-analyzer.ts)\<close>

record OriginCourt =
  originCourtType :: string
  originCourtNumber :: string

datatype CourtType = ORIGINAL_LAWSUIT | MARTIAL_COURT | REGION | ESTATE | JUDICIAL_CIRCUIT

text \<open>The string values of the enum members.\<close>

fun courtTypeValue :: "CourtType \<Rightarrow> string" where
  "courtTypeValue ORIGINAL_LAWSUIT = ''Processo Origin'' @ [CHR 0xE1] @ ''rio''"
| "courtTypeValue MARTIAL_COURT = ''Tribunal Militar Estadual''"
| "courtTypeValue REGION = ''regi'' @ [CHR 0xE3] @ ''o''"
| "courtTypeValue ESTATE = ''unidade federativa''"
| "courtTypeValue JUDICIAL_CIRCUIT =
     ''circunscri'' @ [CHR 0xE7, CHR 0xE3] @ ''o judici'' @ [CHR 0xE1] @ ''ria''"

definition SpecialCourtCode_ORIGINAL :: string where "SpecialCourtCode_ORIGINAL = ''00''"
definition SpecialCourtCode_COUNCIL :: string where "SpecialCourtCode_COUNCIL = ''90''"

definition MAX_COURT_BY_SEGMENT :: "int \<Rightarrow> int option" where
  "MAX_COURT_BY_SEGMENT n =
     (if n = 1 then Some 0 else if n = 2 then Some 0 else if n = 3 then Some 0
      else if n = 4 then Some 5 else if n = 5 then Some 24 else if n = 6 then Some 27
      else if n = 7 then Some 12 else if n = 8 then Some 27 else if n = 9 then Some 3
      else None)"

definition MilitaryCourtCodes_MG :: int where "MilitaryCourtCodes_MG = 13"
definition MilitaryCourtCodes_RS :: int where "MilitaryCourtCodes_RS = 21"
definition MilitaryCourtCodes_SP :: int where "MilitaryCourtCodes_SP = 26"

definition parseCourt00 :: "Segment \<Rightarrow> CNJValidationError + OriginCourt" where
  "parseCourt00 seg =
     (let n = number seg;
          originCourt =
            (if n = 1 \<or> n = 2 \<or> n = 3 then Some (name seg @ '' ('' @ short seg @ '')'')
             else if n = 5 then Some ''Tribunal Superior do Trabalho (TST)''
             else if n = 6 then Some ''Tribunal Superior Eleitoral (TSE)''
             else if n = 7 \<or> n = 9 then Some ''Superior Tribunal Militar (STM)''
             else None)
      in case originCourt of
           None \<Rightarrow> Inl (invalidCourt ''00'' n)
         | Some c \<Rightarrow> Inr \<lparr>originCourtType = courtTypeValue ORIGINAL_LAWSUIT,
                          originCourtNumber = c\<rparr>)"

definition parseCourt90 :: "Segment \<Rightarrow> CNJValidationError + OriginCourt" where
  "parseCourt90 seg =
     (let n = number seg;
          originCourt =
            (if n = 4 then Some (''Conselho da Justi'' @ [CHR 0xE7] @ ''a Federal'')
             else if n = 5 then Some (''Conselho Superior da Justi'' @ [CHR 0xE7] @ ''a do Trabalho'')
             else None)
      in case originCourt of
           None \<Rightarrow> Inl (invalidCourt ''90'' n)
         | Some c \<Rightarrow> Inr \<lparr>originCourtType = courtTypeValue ORIGINAL_LAWSUIT,
                          originCourtNumber = c\<rparr>)"

definition parseMilitaryCourt :: "int \<Rightarrow> CNJValidationError + OriginCourt" where
  "parseMilitaryCourt courtCode =
     (let courtName =
            (if courtCode = MilitaryCourtCodes_MG then Some ''Minas Gerais - MG''
             else if courtCode = MilitaryCourtCodes_RS then Some ''Rio Grande do Sul - RS''
             else if courtCode = MilitaryCourtCodes_SP then Some (''S'' @ [CHR 0xE3] @ ''o Paulo - SP'')
             else None)
      in case courtName of
           None \<Rightarrow> Inl (invalidCourt (intToString courtCode) 9)
         | Some c \<Rightarrow> Inr \<lparr>originCourtType = courtTypeValue MARTIAL_COURT,
                          originCourtNumber = c\<rparr>)"

text \<open>Returns the pair \<open>(courtType, courtNumber)\<close> of the source's result object.\<close>

definition getCourtTypeAndNumber :: "Segment \<Rightarrow> int \<Rightarrow> CNJValidationError + (string \<times> string)" where
  "getCourtTypeAndNumber seg courtNumber =
     (let n = number seg in
      if n = 4 \<or> n = 5 then Inr (courtTypeValue REGION, intToString courtNumber)
      else if n = 6 \<or> n = 8 then Inr (courtTypeValue ESTATE, intToString courtNumber)
      else if n = 7 then Inr (courtTypeValue JUDICIAL_CIRCUIT, intToString courtNumber)
      else Inl (invalidCourt (intToString courtNumber) n))"

text \<open>A segment missing from the table gives \<open>undefined\<close>, and every comparison with it
  is false.\<close>

definition isCourtValid :: "Segment \<Rightarrow> int \<Rightarrow> bool" where
  "isCourtValid seg courtNumber =
     (case MAX_COURT_BY_SEGMENT (number seg) of
        None \<Rightarrow> False
      | Some maxCourt \<Rightarrow> if maxCourt = 0 then True else courtNumber \<ge> 1 \<and> courtNumber \<le> maxCourt)"

definition parseCourtOther :: "Segment \<Rightarrow> string \<Rightarrow> CNJValidationError + OriginCourt" where
  "parseCourtOther seg crt =
     (case parseInt crt of
        None \<Rightarrow> Inl (invalidCourt crt (number seg))
      | Some courtNumber \<Rightarrow>
          if number seg = 9 then parseMilitaryCourt courtNumber
          else if \<not> isCourtValid seg courtNumber then Inl (invalidCourt crt (number seg))
          else (case getCourtTypeAndNumber seg courtNumber of
                  Inl e \<Rightarrow> Inl e
                | Inr (courtType, courtNum) \<Rightarrow>
                    Inr \<lparr>originCourtType = courtType, originCourtNumber = courtNum\<rparr>))"

definition getOriginCourt :: "string \<Rightarrow> Segment \<Rightarrow> CNJValidationError + OriginCourt" where
  "getOriginCourt crt seg =
     (if crt = SpecialCourtCode_ORIGINAL then parseCourt00 seg
      else if crt = SpecialCourtCode_COUNCIL then parseCourt90 seg
      else parseCourtOther seg crt)"

section \<open>Source unit (types/source-unit.ts, core/source-unit-analyzer.ts)\<close>

record SourceUnit =
  sourceUnitType :: string
  sourceUnitNumber :: string

datatype SourceUnitType =
    JUSTICE_SECTION | LABOR_UNIT | ELECTORAL_UNIT | MILITARY_UNIT | CIVIL_UNIT
  | COURT_UNIT_SINGLE | COURT_UNIT

fun sourceUnitTypeValue :: "SourceUnitType \<Rightarrow> string" where
  "sourceUnitTypeValue JUSTICE_SECTION =
     ''subse'' @ [CHR 0xE7, CHR 0xE3] @ ''o judici'' @ [CHR 0xE1] @ ''ria''"
| "sourceUnitTypeValue LABOR_UNIT = ''vara do trabalho''"
| "sourceUnitTypeValue ELECTORAL_UNIT = ''zona eleitoral''"
| "sourceUnitTypeValue MILITARY_UNIT = ''auditoria militar''"
| "sourceUnitTypeValue CIVIL_UNIT = ''foro''"
| "sourceUnitTypeValue COURT_UNIT_SINGLE =
     ''compet'' @ [CHR 0xEA] @ ''ncia origin'' @ [CHR 0xE1] @ ''ria do Tribunal''"
| "sourceUnitTypeValue COURT_UNIT =
     ''compet'' @ [CHR 0xEA] @ ''ncia origin'' @ [CHR 0xE1] @ ''ria da Turma Recursal''"

definition SOURCE_UNIT_CONFIG :: "int \<Rightarrow> SourceUnitType option" where
  "SOURCE_UNIT_CONFIG n =
     (if n = 1 then Some COURT_UNIT_SINGLE else if n = 2 then Some COURT_UNIT_SINGLE
      else if n = 3 then Some COURT_UNIT_SINGLE else if n = 4 then Some JUSTICE_SECTION
      else if n = 5 then Some LABOR_UNIT else if n = 6 then Some ELECTORAL_UNIT
      else if n = 7 then Some MILITARY_UNIT else if n = 8 then Some CIVIL_UNIT
      else if n = 9 then Some MILITARY_UNIT else None)"

text \<open>\<open>sourceUnit[0] === '9'\<close>: the empty string has no first character.\<close>

definition isFirstDigit9 :: "string \<Rightarrow> bool" where
  "isFirstDigit9 unit = (case unit of [] \<Rightarrow> False | c # _ \<Rightarrow> c = CHR ''9'')"

definition isZeroSequence :: "string \<Rightarrow> bool" where
  "isZeroSequence unit \<longleftrightarrow> unit = ''0000''"

text \<open>The function has no failing path: it returns a plain record.\<close>

definition getSourceUnit :: "string \<Rightarrow> Segment \<Rightarrow> SourceUnit" where
  "getSourceUnit unit seg =
     (if isZeroSequence unit then
        \<lparr>sourceUnitType = sourceUnitTypeValue COURT_UNIT_SINGLE, sourceUnitNumber = unit\<rparr>
      else if isFirstDigit9 unit then
        \<lparr>sourceUnitType = sourceUnitTypeValue COURT_UNIT, sourceUnitNumber = unit\<rparr>
      else
        (let unitType = (case SOURCE_UNIT_CONFIG (number seg) of
                           Some t \<Rightarrow> t
                         | None \<Rightarrow> CIVIL_UNIT)
         in \<lparr>sourceUnitType = sourceUnitTypeValue unitType, sourceUnitNumber = unit\<rparr>))"

section \<open>Analysis of one identifier (types/analysis.ts, core/analyzer.ts)\<close>

record AnalysisCNJ =
  receivedCNJ :: string
  validCNJ :: bool
  segmentName :: string
  segmentShort :: string
  sourceUnitType :: string
  sourceUnitNumber :: string
  courtType :: string
  courtNumber :: string
  detailed :: DecomposedCNJ

text \<open>Every exception raised below is a \<open>CNJValidationError\<close>, which the \<open>catch\<close> clause
  throws again unchanged.\<close>

definition analyzeCNJ :: "DistrictMap \<Rightarrow> string \<Rightarrow> CNJValidationError + AnalysisCNJ" where
  "analyzeCNJ DISTRICTS cnj =
     (case decomposeCNJ DISTRICTS cnj of
        Inl e \<Rightarrow> Inl e
      | Inr decomposed \<Rightarrow>
          (let validation = validateCNJ DISTRICTS cnj in
           case getSegment (segment decomposed) of
             None \<Rightarrow> Inl (invalidSegment (segment decomposed))
           | Some seg \<Rightarrow>
               (let su = getSourceUnit (DecomposedCNJ.sourceUnit decomposed) seg in
                case getOriginCourt (court decomposed) seg of
                  Inl e \<Rightarrow> Inl e
                | Inr oc \<Rightarrow>
                    Inr \<lparr>receivedCNJ = cnj, validCNJ = isValid validation,
                         segmentName = name seg, segmentShort = short seg,
                         sourceUnitType = SourceUnit.sourceUnitType su,
                         sourceUnitNumber = SourceUnit.sourceUnitNumber su,
                         courtType = originCourtType oc, courtNumber = originCourtNumber oc,
                         detailed = decomposed\<rparr>)))"

section \<open>Batch processing (csv/processor.ts)\<close>

record CSVOptions =
  separator :: "string option"

record CSVProcessingError =
  line :: nat
  cnj :: string
  error :: string

record CSVProcessingResult =
  totalProcessed :: nat
  validCount :: nat
  invalidCount :: nat
  errors :: "CSVProcessingError list"

text \<open>The entry pushed to \<open>results\<close> when the analysis of a line fails.\<close>

definition errorResult :: "string \<Rightarrow> string \<Rightarrow> AnalysisCNJ" where
  "errorResult c errorMessage =
     \<lparr>receivedCNJ = c, validCNJ = False, segmentName = errorMessage, segmentShort = ''ERRO'',
      sourceUnitType = errorMessage, sourceUnitNumber = '''', courtType = errorMessage,
      courtNumber = '''',
      detailed = \<lparr>lawsuitCNJFormat = '''', lawsuitNumber = '''', verifyingDigit = '''',
                  protocolYear = '''', segment = '''', court = '''', sourceUnit = '''',
                  argNumber = '''', district = '''', uf = '''', tj = ''''\<rparr>\<rparr>"

text \<open>
  The callback of \<open>lines.forEach\<close>: \<open>index\<close> is the position of the line in the array
  it runs over. \<open>line.split(separator)[0]?.trim()\<close> is \<open>undefined\<close> when the split gives
  no piece, and \<open>!cnj\<close> holds for \<open>undefined\<close> and for the empty string.
\<close>

definition processLine ::
  "DistrictMap \<Rightarrow> string \<Rightarrow> string \<Rightarrow> nat \<Rightarrow> AnalysisCNJ list \<times> CSVProcessingError list
     \<Rightarrow> AnalysisCNJ list \<times> CSVProcessingError list" where
  "processLine DISTRICTS sep ln index acc =
     (let results = fst acc; errs = snd acc;
          c = (case split ln sep of [] \<Rightarrow> None | f # _ \<Rightarrow> Some (trim f))
      in if c = None \<or> c = Some '''' then
           (results,
            errs @ [\<lparr>line = index + 1, cnj = ln,
                     error = ''Linha vazia ou CNJ n'' @ [CHR 0xE3] @ ''o encontrado''\<rparr>])
         else
           (case analyzeCNJ DISTRICTS (the c) of
              Inr analysis \<Rightarrow> (results @ [analysis], errs)
            | Inl e \<Rightarrow>
                (results @ [errorResult (the c) (message e)],
                 errs @ [\<lparr>line = index + 1, cnj = the c, error = message e\<rparr>])))"

fun forEachLine ::
  "DistrictMap \<Rightarrow> string \<Rightarrow> string list \<Rightarrow> nat \<Rightarrow> AnalysisCNJ list \<times> CSVProcessingError list
     \<Rightarrow> AnalysisCNJ list \<times> CSVProcessingError list" where
  "forEachLine DISTRICTS sep [] index acc = acc"
| "forEachLine DISTRICTS sep (ln # rest) index acc =
     forEachLine DISTRICTS sep rest (index + 1) (processLine DISTRICTS sep ln index acc)"

definition processCSV :: "DistrictMap \<Rightarrow> string \<Rightarrow> CSVOptions \<Rightarrow> CSVProcessingResult" where
  "processCSV DISTRICTS csvContent options =
     (let sep = (case separator options of None \<Rightarrow> '','' | Some s \<Rightarrow> s);
          lines = filter (\<lambda>ln. trim ln \<noteq> []) (split csvContent [CHR 0x0A]);
          acc = forEachLine DISTRICTS sep lines 0 ([], []);
          results = fst acc;
          valid = length (filter validCNJ results);
          invalid = length results - valid
      in \<lparr>totalProcessed = length lines, validCount = valid, invalidCount = invalid,
          errors = snd acc\<rparr>)"

section \<open>Facts about the string and number functions\<close>

lemma isDigit_not_ws: "isDigit c \<Longrightarrow> \<not> isStrWhiteSpaceChar c"
  by (auto simp: isDigit_def isStrWhiteSpaceChar_def)

lemma trimStart_id: "s \<noteq> [] \<Longrightarrow> \<not> isStrWhiteSpaceChar (hd s) \<Longrightarrow> trimStart s = s"
  by (cases s) (simp_all add: trimStart_def)

lemma trimEnd_id: "s \<noteq> [] \<Longrightarrow> \<not> isStrWhiteSpaceChar (last s) \<Longrightarrow> trimEnd s = s"
  by (cases s rule: rev_cases) (simp_all add: trimEnd_def)

lemma trim_id: "s \<noteq> [] \<Longrightarrow> \<not> isStrWhiteSpaceChar (hd s) \<Longrightarrow> \<not> isStrWhiteSpaceChar (last s) \<Longrightarrow> trim s = s"
  by (simp add: trim_def trimStart_id trimEnd_id)

lemma radixDigit_10: "isDigit c \<Longrightarrow> radixDigit 10 c = Some (digitVal c)"
  by (auto simp: radixDigit_def isDigit_def digitVal_def Let_def)

lemma radixDigit_10_iff: "radixDigit 10 c \<noteq> None \<longleftrightarrow> isDigit c"
  by (auto simp: radixDigit_def isDigit_def digitVal_def Let_def split: if_splits)

lemma parseDigits_decimal:
  "\<forall>c\<in>set s. isDigit c \<Longrightarrow>
   parseDigits 10 s acc =
     Some (acc * 10 ^ length s
           + int (\<Sum>i<length s. digitVal (s ! i) * 10 ^ (length s - 1 - i)))"
proof (induction s arbitrary: acc)
  case Nil
  then show ?case by simp
next
  case (Cons c cs)
  then show ?case
    by (simp add: radixDigit_10 sum.lessThan_Suc_shift algebra_simps del: sum.lessThan_Suc)
qed

lemma digitChar_0: "digitChar 0 = CHR ''0''"
  by code_simp

lemma natToString_two:
  "n < 100 \<Longrightarrow> padStart 2 (CHR ''0'') (natToString n) = [digitChar (n div 10), digitChar (n mod 10)]"
proof -
  assume "n < 100"
  then have "n div 10 < 10" by arith
  then show ?thesis by (simp add: padStart_def digitChar_0)
qed

lemma no_radix_prefix:
  assumes "\<forall>c\<in>set s. isDigit c" and "\<forall>c\<in>set letters. \<not> isDigit c"
  shows "\<not> hasRadixPrefix s letters"
proof
  assume h: "hasRadixPrefix s letters"
  then have "s ! 1 \<in> set s" by (simp add: hasRadixPrefix_def)
  with assms h show False by (auto simp: hasRadixPrefix_def)
qed

lemma StringToBigInt_digits:
  assumes "s \<noteq> []" and "\<forall>c\<in>set s. isDigit c"
  shows "StringToBigInt s = Some (int (\<Sum>i<length s. digitVal (s ! i) * 10 ^ (length s - 1 - i)))"
proof -
  from assms have h: "isDigit (hd s)" and l: "isDigit (last s)" by simp_all
  have t: "trim s = s"
    using assms(1) h l by (simp add: trim_id isDigit_not_ws)
  have nd: "\<not> isDigit CHR ''x''" "\<not> isDigit CHR ''X''" "\<not> isDigit CHR ''o''" "\<not> isDigit CHR ''O''"
       "\<not> isDigit CHR ''b''" "\<not> isDigit CHR ''B''" "\<not> isDigit CHR ''+''" "\<not> isDigit CHR ''-''"
    by (simp_all add: isDigit_def)
  have px: "\<not> hasRadixPrefix s ''xX''" and po: "\<not> hasRadixPrefix s ''oO''"
    and pb: "\<not> hasRadixPrefix s ''bB''"
    using nd by (simp_all add: no_radix_prefix [OF assms(2)])
  have sg: "hd s \<noteq> CHR ''+''" "hd s \<noteq> CHR ''-''"
    using h nd by auto
  show ?thesis
    using assms(1) by (simp add: StringToBigInt_def t px po pb sg nonEmptyDigits_def
        parseDigits_decimal [OF assms(2)])
qed

lemma bigintRem_nat: "bigintRem (int n) MOD = int (n mod 97)"
  by (simp add: bigintRem_def MOD_def zmod_int)

lemma calc_of_nat:
  assumes "StringToBigInt s = Some (int n)"
  shows "calculateVerifyingDigit s =
     Inr [digitChar ((98 - n mod 97) div 10), digitChar ((98 - n mod 97) mod 10)]"
proof -
  have "n mod 97 < 97" by simp
  then have r: "SUB - int (n mod 97) = int (98 - n mod 97)"
    unfolding SUB_def by linarith
  have lt: "98 - n mod 97 < 100" by simp
  have d: "SUB - bigintRem (int n) MOD = int (98 - n mod 97)"
    by (simp only: bigintRem_nat r)
  have i: "intToString (int m) = natToString m" for m
    by (simp add: intToString_def del: natToString.simps)
  show ?thesis
    unfolding calculateVerifyingDigit_def assms
    by (simp only: option.case Let_def d i natToString_two [OF lt])
qed

lemma splitBy_char_notin: "c \<notin> set xs \<Longrightarrow> splitBy [c] cur xs = [cur @ xs]"
proof (induction xs arbitrary: cur)
  case Nil
  then show ?case by (subst splitBy.simps) simp
next
  case (Cons x xs)
  then show ?case by (subst splitBy.simps) simp
qed

lemma splitBy_char_app:
  "c \<notin> set xs \<Longrightarrow> splitBy [c] cur (xs @ c # ys) = (cur @ xs) # splitBy [c] [] ys"
proof (induction xs arbitrary: cur)
  case Nil
  then show ?case by (subst splitBy.simps) simp
next
  case (Cons x xs)
  then show ?case by (subst splitBy.simps) simp
qed

lemma split_two:
  "c \<notin> set a \<Longrightarrow> c \<notin> set b \<Longrightarrow> split (a @ c # b) [c] = [a, b]"
  by (simp add: split_def splitBy_char_app splitBy_char_notin)

lemma split_five:
  "c \<notin> set a \<Longrightarrow> c \<notin> set b \<Longrightarrow> c \<notin> set d \<Longrightarrow> c \<notin> set e \<Longrightarrow> c \<notin> set f \<Longrightarrow>
   split (a @ c # b @ c # d @ c # e @ c # f) [c] = [a, b, d, e, f]"
  by (simp add: split_def splitBy_char_app splitBy_char_notin)

lemma digits_no_sep:
  "list_all isDigit xs \<Longrightarrow> \<not> isDigit c \<Longrightarrow> c \<notin> set xs"
  by (auto simp: list_all_iff)

lemma substring_digits: "list_all isDigit xs \<Longrightarrow> list_all isDigit (substring a b xs)"
  by (auto simp: substring_def list_all_iff dest: in_set_takeD in_set_dropD)

lemma not_digit_seps: "\<not> isDigit CHR ''-''" "\<not> isDigit CHR ''.''"
  by (simp_all add: isDigit_def)

lemma decompose_compact:
  assumes "length x = 20" and "list_all isDigit x"
  shows "decomposeCNJ D x =
     Inr (buildDecomposedCNJ D (substring 0 7 x) (substring 7 9 x) (substring 9 13 x)
            (substring 13 14 x) (substring 14 16 x) (substring 16 20 x))"
  using assms digits_no_sep [OF assms(2) not_digit_seps(1)]
  by (simp add: decomposeCNJ_def decomposeUnformattedCNJ_def includes_str_def)

lemma formatCNJ_digits:
  assumes "length x = 20" and "list_all isDigit x"
  shows "formatCNJ x =
     Inr (substring 0 7 x @ CHR ''-'' # substring 7 9 x @ CHR ''.'' # substring 9 13 x
          @ CHR ''.'' # substring 13 14 x @ CHR ''.'' # substring 14 16 x
          @ CHR ''.'' # substring 16 20 x)"
proof -
  have "filter isDigit x = x" using assms(2) by (simp add: list_all_iff)
  then show ?thesis using assms(1) by (simp add: formatCNJ_def normalizeCNJ_def)
qed

lemma decompose_masked:
  assumes "list_all isDigit a" "list_all isDigit b" "list_all isDigit d" "list_all isDigit e"
    "list_all isDigit f" "list_all isDigit g"
    and "length (a @ b @ d @ e @ f @ g) \<le> 20" and "15 \<le> length (a @ b @ d @ e @ f @ g)"
  shows "decomposeCNJ D (a @ CHR ''-'' # b @ CHR ''.'' # d @ CHR ''.'' # e @ CHR ''.'' # f @ CHR ''.'' # g)
     = Inr (buildDecomposedCNJ D a b d e f g)"
proof -
  note nd = digits_no_sep [OF _ not_digit_seps(1)] digits_no_sep [OF _ not_digit_seps(2)]
  have 1: "split (a @ CHR ''-'' # b @ CHR ''.'' # d @ CHR ''.'' # e @ CHR ''.'' # f @ CHR ''.'' # g) ''-''
     = [a, b @ CHR ''.'' # d @ CHR ''.'' # e @ CHR ''.'' # f @ CHR ''.'' # g]"
    using assms(1-6) by (intro split_two) (simp_all add: nd)
  have 2: "split (b @ CHR ''.'' # d @ CHR ''.'' # e @ CHR ''.'' # f @ CHR ''.'' # g) ''.'' = [b, d, e, f, g]"
    using assms(1-6) by (intro split_five) (simp_all add: nd)
  show ?thesis
    using assms(7,8)
    by (simp add: decomposeCNJ_def decomposeFormattedCNJ_def includes_str_def 1 2)
qed

lemma build_fields [simp]:
  "lawsuitNumber (buildDecomposedCNJ D a b c e f g) = a"
  "verifyingDigit (buildDecomposedCNJ D a b c e f g) = b"
  "protocolYear (buildDecomposedCNJ D a b c e f g) = c"
  "segment (buildDecomposedCNJ D a b c e f g) = e"
  "court (buildDecomposedCNJ D a b c e f g) = f"
  "DecomposedCNJ.sourceUnit (buildDecomposedCNJ D a b c e f g) = g"
  "argNumber (buildDecomposedCNJ D a b c e f g) = a @ c @ e @ f @ g @ ''00''"
  "lawsuitCNJFormat (buildDecomposedCNJ D a b c e f g) =
     a @ CHR ''-'' # b @ CHR ''.'' # c @ CHR ''.'' # e @ CHR ''.'' # f @ CHR ''.'' # g"
  by (simp_all add: buildDecomposedCNJ_def Let_def MATH_SUFFIX_def)

lemma methods_undotted: "list_all (\<lambda>k. CHR ''.'' \<notin> set k) objectPrototypeMethods"
  by code_simp

lemma prototypeLookup_dotted:
  assumes d: "CHR ''.'' \<in> set key"
  shows "prototypeLookup p key = None"
proof -
  have n: "key \<noteq> k" if "CHR ''.'' \<notin> set k" for k
    using d that by blast
  have 1: "key \<noteq> ''__proto__''" "key \<noteq> ''sourceUnit''" "key \<noteq> ''uf''" "key \<noteq> ''district''"
    by (rule n, simp)+
  have 2: "key \<notin> set objectPrototypeMethods"
    using methods_undotted d by (auto simp: list_all_iff)
  show ?thesis
    by (cases p) (simp_all only: prototypeLookup_def option.case 1 2 if_False)
qed

lemma dotted_key_own:
  "CHR ''.'' \<in> set key \<Longrightarrow> getProperty D key = map_option DistrictValue (entries D key)"
  by (simp add: getProperty_def prototypeLookup_dotted split: option.splits)

lemma districtKey_dotted: "CHR ''.'' \<in> set (generateDistrictKey e f g)"
  by (simp add: generateDistrictKey_def)

lemma build_district:
  "DecomposedCNJ.district (buildDecomposedCNJ D a b c e f g) =
     (case entries D (generateDistrictKey e f g) of
        None \<Rightarrow> [] | Some di \<Rightarrow> DistrictInfo.sourceUnit di)"
  "DecomposedCNJ.uf (buildDecomposedCNJ D a b c e f g) =
     (case entries D (generateDistrictKey e f g) of
        None \<Rightarrow> [] | Some di \<Rightarrow> DistrictInfo.uf di)"
  by (simp_all add: buildDecomposedCNJ_def Let_def getDistrictInfo_def fieldOrEmpty_def
      dotted_key_own [OF districtKey_dotted] split: option.splits)

lemma decompose_cases:
  "decomposeCNJ D inp = Inl e \<Longrightarrow> e = invalidLength inp 20 \<or> e = invalidFormat inp"
  by (auto simp: decomposeCNJ_def decomposeFormattedCNJ_def decomposeUnformattedCNJ_def
      split: if_splits list.splits)

lemma decompose_build:
  "decomposeCNJ D inp = Inr d \<Longrightarrow> \<exists>a b c e f g. d = buildDecomposedCNJ D a b c e f g"
  by (auto simp: decomposeCNJ_def decomposeFormattedCNJ_def decomposeUnformattedCNJ_def
      split: if_splits list.splits; blast)

lemma decompose_compact_build:
  "decomposeCNJ D inp = Inr d \<Longrightarrow> \<not> includes_str inp (CHR ''-'') \<Longrightarrow>
   length inp = 20 \<and>
   d = buildDecomposedCNJ D (substring 0 7 inp) (substring 7 9 inp) (substring 9 13 inp)
            (substring 13 14 inp) (substring 14 16 inp) (substring 16 20 inp)"
  by (auto simp: decomposeCNJ_def decomposeUnformattedCNJ_def split: if_splits)

lemma error_messages_nonempty:
  "message (invalidLength c n) \<noteq> []" "message (invalidFormat c) \<noteq> []"
  by (simp_all add: invalidLength_def invalidFormat_def)

lemma calc_example: "calculateVerifyingDigit ''00013272018826015800'' = Inr ''64''"
  by code_simp

lemma decompose_example:
  "decomposeCNJ D ''0001327-64.2018.8.26.0158'' =
     Inr (buildDecomposedCNJ D ''0001327'' ''64'' ''2018'' ''8'' ''26'' ''0158'')"
  using decompose_masked [of "''0001327''" "''64''" "''2018''" "''8''" "''26''" "''0158''" D]
  by (simp add: isDigit_def)

lemma validate_example:
  "validateCNJ D ''0001327-64.2018.8.26.0158'' =
     \<lparr>isValid = True, expectedDigit = Some ''64'', receivedDigit = Some ''64'', error = None\<rparr>"
  by (simp add: validateCNJ_def validateCNJ_try_def decompose_example calc_example)

section \<open>The claims\<close>

text \<open>
  Claim C1. For a string of exactly 20 decimal digits, \<open>calculateVerifyingDigit\<close> returns
  two characters: the tens digit and the units digit of \<open>98 - (N mod 97)\<close>, where \<open>N\<close> is
  the number the string denotes in base ten (the sum of its digits weighted by the powers
  of ten). That is the decimal representation of \<open>98 - (N mod 97)\<close>, which lies between 2
  and 98, padded on the left with a zero to two characters. For the identifier
  \<open>0001327-64.2018.8.26.0158\<close> the expected digit is \<open>64\<close> and \<open>validateCNJ\<close> reports a
  valid identifier, whatever the district data.
\<close>

theorem calculateVerifyingDigit_mod97:
  "(length s = 20 \<and> list_all isDigit s \<longrightarrow>
      calculateVerifyingDigit s =
        Inr (let r = 98 - (\<Sum>i<20. digitVal (s ! i) * 10 ^ (19 - i)) mod 97
             in [digitChar (r div 10), digitChar (r mod 10)]))
   \<and> validateCNJ D ''0001327-64.2018.8.26.0158'' =
        \<lparr>isValid = True, expectedDigit = Some ''64'', receivedDigit = Some ''64'', error = None\<rparr>"
proof (intro conjI impI)
  assume a: "length s = 20 \<and> list_all isDigit s"
  from a have ne: "s \<noteq> []" by auto
  from a have ds: "\<forall>c\<in>set s. isDigit c" by (simp add: list_all_iff)
  have big: "StringToBigInt s = Some (int (\<Sum>i<20. digitVal (s ! i) * 10 ^ (19 - i)))"
    using StringToBigInt_digits [OF ne ds] a by simp
  show "calculateVerifyingDigit s =
        Inr (let r = 98 - (\<Sum>i<20. digitVal (s ! i) * 10 ^ (19 - i)) mod 97
             in [digitChar (r div 10), digitChar (r mod 10)])"
    unfolding Let_def by (rule calc_of_nat [OF big])
next
  show "validateCNJ D ''0001327-64.2018.8.26.0158'' =
        \<lparr>isValid = True, expectedDigit = Some ''64'', receivedDigit = Some ''64'', error = None\<rparr>"
    by (rule validate_example)
qed

theorem calculateVerifyingDigit_mod97_witness:
  "length ''00013272018826015800'' = 20 \<and> list_all isDigit ''00013272018826015800''
   \<and> Inr (let r = 98 - (\<Sum>i<20. digitVal (''00013272018826015800'' ! i) * 10 ^ (19 - i)) mod 97
           in [digitChar (r div 10), digitChar (r mod 10)])
       = (Inr ''64'' :: CNJValidationError + string)
   \<and> isValid (validateCNJ noDistricts ''0001327-64.2018.8.26.0158'')"
proof -
  have d: "length ''00013272018826015800'' = 20 \<and> list_all isDigit ''00013272018826015800''"
    by (simp add: isDigit_def)
  note t = calculateVerifyingDigit_mod97 [of "''00013272018826015800''" noDistricts]
  from t d have c: "calculateVerifyingDigit ''00013272018826015800'' =
      Inr (let r = 98 - (\<Sum>i<20. digitVal (''00013272018826015800'' ! i) * 10 ^ (19 - i)) mod 97
           in [digitChar (r div 10), digitChar (r mod 10)])"
    by blast
  have e: "Inr (let r = 98 - (\<Sum>i<20. digitVal (''00013272018826015800'' ! i) * 10 ^ (19 - i)) mod 97
           in [digitChar (r div 10), digitChar (r mod 10)])
       = (Inr ''64'' :: CNJValidationError + string)"
    by (rule trans [OF c [symmetric] calc_example])
  from t have v: "validateCNJ noDistricts ''0001327-64.2018.8.26.0158'' =
        \<lparr>isValid = True, expectedDigit = Some ''64'', receivedDigit = Some ''64'', error = None\<rparr>"
    by blast
  have i: "isValid (validateCNJ noDistricts ''0001327-64.2018.8.26.0158'')"
    by (simp add: v)
  from d e i show ?thesis by blast
qed

lemma calculate_error:
  "calculateVerifyingDigit s = Inl e \<Longrightarrow> e = calculationError"
  by (simp add: calculateVerifyingDigit_def Let_def split: option.splits)

lemma calculationError_facts:
  "etype calculationError = CALCULATION_ERROR" "message calculationError \<noteq> []"
  by (simp_all add: calculationError_def)

lemma decompose_error_message:
  "decomposeCNJ D inp = Inl e \<Longrightarrow> message e \<noteq> []"
  using decompose_cases [of D inp e] error_messages_nonempty by auto

lemma validate_decompose_error:
  "decomposeCNJ D inp = Inl e \<Longrightarrow>
   validateCNJ D inp =
     \<lparr>isValid = False, expectedDigit = None, receivedDigit = None, error = Some (message e)\<rparr>"
  by (simp add: validateCNJ_def validateCNJ_try_def)

lemma validate_calculate_error:
  "decomposeCNJ D inp = Inr d \<Longrightarrow> calculateVerifyingDigit (argNumber d) = Inl e \<Longrightarrow>
   validateCNJ D inp =
     \<lparr>isValid = False, expectedDigit = None, receivedDigit = None, error = Some (message e)\<rparr>"
  by (simp add: validateCNJ_def validateCNJ_try_def)

lemma validate_compared:
  "decomposeCNJ D inp = Inr d \<Longrightarrow> calculateVerifyingDigit (argNumber d) = Inr x \<Longrightarrow>
   validateCNJ D inp =
     \<lparr>isValid = (verifyingDigit d = x), expectedDigit = Some x,
      receivedDigit = Some (verifyingDigit d),
      error = (if verifyingDigit d = x then None
               else Some (''D'' @ [CHR 0xED] @ ''gito verificador inv'' @ [CHR 0xE1]
                          @ ''lido. Esperado: '' @ x @ '', Recebido: '' @ verifyingDigit d))\<rparr>"
  by (simp add: validateCNJ_def validateCNJ_try_def Let_def)

lemma validate_negative_message:
  assumes neg: "\<not> isValid (validateCNJ D inp)"
  shows "\<exists>m. ValidationResult.error (validateCNJ D inp) = Some m \<and> m \<noteq> []"
proof (cases "decomposeCNJ D inp")
  case (Inl e)
  then show ?thesis
    by (simp add: validate_decompose_error decompose_error_message)
next
  case (Inr d)
  note dec = this
  show ?thesis
  proof (cases "calculateVerifyingDigit (argNumber d)")
    case (Inl e)
    with calculate_error [OF Inl] show ?thesis
      by (simp add: validate_calculate_error [OF dec Inl] calculationError_facts)
  next
    case (Inr x)
    with neg show ?thesis
      by (simp add: validate_compared [OF dec Inr])
  qed
qed

text \<open>
  Claim C2. \<open>validateCNJ\<close> catches every exception of its \<open>try\<close> block, so it returns a
  result record for every input string. When decomposition fails, or when the digit
  cannot be calculated, the result has \<open>isValid = false\<close> and the non-empty message of the
  error. When the received digit differs from the calculated one, the result has
  \<open>isValid = false\<close>, both digits, and the message that names them. Every negative result
  carries a non-empty message.
\<close>

theorem validateCNJ_never_raises:
  "(\<forall>e. decomposeCNJ D inp = Inl e \<longrightarrow>
        validateCNJ D inp =
          \<lparr>isValid = False, expectedDigit = None, receivedDigit = None, error = Some (message e)\<rparr>
        \<and> message e \<noteq> [])
   \<and> (\<forall>d e. decomposeCNJ D inp = Inr d \<and> calculateVerifyingDigit (argNumber d) = Inl e \<longrightarrow>
        validateCNJ D inp =
          \<lparr>isValid = False, expectedDigit = None, receivedDigit = None, error = Some (message e)\<rparr>
        \<and> message e \<noteq> [])
   \<and> (\<forall>d x. decomposeCNJ D inp = Inr d \<and> calculateVerifyingDigit (argNumber d) = Inr x
          \<and> verifyingDigit d \<noteq> x \<longrightarrow>
        validateCNJ D inp =
          \<lparr>isValid = False, expectedDigit = Some x, receivedDigit = Some (verifyingDigit d),
           error = Some (''D'' @ [CHR 0xED] @ ''gito verificador inv'' @ [CHR 0xE1]
                         @ ''lido. Esperado: '' @ x @ '', Recebido: '' @ verifyingDigit d)\<rparr>)
   \<and> (\<not> isValid (validateCNJ D inp) \<longrightarrow>
        (\<exists>m. ValidationResult.error (validateCNJ D inp) = Some m \<and> m \<noteq> []))"
proof (intro conjI allI impI)
  fix e assume "decomposeCNJ D inp = Inl e"
  then show "validateCNJ D inp =
      \<lparr>isValid = False, expectedDigit = None, receivedDigit = None, error = Some (message e)\<rparr>"
    and "message e \<noteq> []"
    by (rule validate_decompose_error, rule decompose_error_message)
next
  fix d e assume h: "decomposeCNJ D inp = Inr d \<and> calculateVerifyingDigit (argNumber d) = Inl e"
  then show "validateCNJ D inp =
      \<lparr>isValid = False, expectedDigit = None, receivedDigit = None, error = Some (message e)\<rparr>"
    by (simp add: validate_calculate_error)
  from h have "e = calculationError" using calculate_error by blast
  then show "message e \<noteq> []" by (simp add: calculationError_facts)
next
  fix d x
  assume "decomposeCNJ D inp = Inr d \<and> calculateVerifyingDigit (argNumber d) = Inr x
          \<and> verifyingDigit d \<noteq> x"
  then show "validateCNJ D inp =
      \<lparr>isValid = False, expectedDigit = Some x, receivedDigit = Some (verifyingDigit d),
       error = Some (''D'' @ [CHR 0xED] @ ''gito verificador inv'' @ [CHR 0xE1]
                     @ ''lido. Esperado: '' @ x @ '', Recebido: '' @ verifyingDigit d)\<rparr>"
    by (simp add: validate_compared)
next
  assume "\<not> isValid (validateCNJ D inp)"
  then show "\<exists>m. ValidationResult.error (validateCNJ D inp) = Some m \<and> m \<noteq> []"
    by (rule validate_negative_message)
qed

theorem validateCNJ_never_raises_witness:
  "decomposeCNJ noDistricts ''invalid-cnj'' = Inl (invalidLength ''invalid-cnj'' 20)
   \<and> validateCNJ noDistricts ''invalid-cnj'' =
       \<lparr>isValid = False, expectedDigit = None, receivedDigit = None,
        error = Some (message (invalidLength ''invalid-cnj'' 20))\<rparr>
   \<and> calculateVerifyingDigit
        (argNumber (buildDecomposedCNJ noDistricts ''abcdefg'' ''hi'' ''jklm'' ''n'' ''op'' ''qrst''))
       = Inl calculationError
   \<and> validateCNJ noDistricts ''abcdefg-hi.jklm.n.op.qrst'' =
       \<lparr>isValid = False, expectedDigit = None, receivedDigit = None,
        error = Some (message calculationError)\<rparr>
   \<and> validateCNJ noDistricts ''0001327-65.2018.8.26.0158'' =
       \<lparr>isValid = False, expectedDigit = Some ''64'', receivedDigit = Some ''65'',
        error = Some (''D'' @ [CHR 0xED] @ ''gito verificador inv'' @ [CHR 0xE1]
                      @ ''lido. Esperado: 64, Recebido: 65'')\<rparr>"
proof -
  have d1: "decomposeCNJ noDistricts ''invalid-cnj'' = Inl (invalidLength ''invalid-cnj'' 20)"
    by (simp add: decomposeCNJ_def)
  from validateCNJ_never_raises [of noDistricts "''invalid-cnj''"] d1
  have r1: "validateCNJ noDistricts ''invalid-cnj'' =
       \<lparr>isValid = False, expectedDigit = None, receivedDigit = None,
        error = Some (message (invalidLength ''invalid-cnj'' 20))\<rparr>"
    by blast
  have d2: "decomposeCNJ noDistricts ''abcdefg-hi.jklm.n.op.qrst'' =
      Inr (buildDecomposedCNJ noDistricts ''abcdefg'' ''hi'' ''jklm'' ''n'' ''op'' ''qrst'')"
    by code_simp
  have c2: "calculateVerifyingDigit
        (argNumber (buildDecomposedCNJ noDistricts ''abcdefg'' ''hi'' ''jklm'' ''n'' ''op'' ''qrst''))
       = Inl calculationError"
    by code_simp
  from validateCNJ_never_raises [of noDistricts "''abcdefg-hi.jklm.n.op.qrst''"] d2 c2
  have r2: "validateCNJ noDistricts ''abcdefg-hi.jklm.n.op.qrst'' =
       \<lparr>isValid = False, expectedDigit = None, receivedDigit = None,
        error = Some (message calculationError)\<rparr>"
    by blast
  have d3: "decomposeCNJ noDistricts ''0001327-65.2018.8.26.0158'' =
      Inr (buildDecomposedCNJ noDistricts ''0001327'' ''65'' ''2018'' ''8'' ''26'' ''0158'')"
    by code_simp
  have c3: "calculateVerifyingDigit
        (argNumber (buildDecomposedCNJ noDistricts ''0001327'' ''65'' ''2018'' ''8'' ''26'' ''0158''))
       = Inr ''64''"
    by (simp add: calc_example)
  have n3: "verifyingDigit (buildDecomposedCNJ noDistricts ''0001327'' ''65'' ''2018'' ''8'' ''26'' ''0158'')
       \<noteq> ''64''"
    by simp
  from validateCNJ_never_raises [of noDistricts "''0001327-65.2018.8.26.0158''"] d3 c3 n3
  have r3: "validateCNJ noDistricts ''0001327-65.2018.8.26.0158'' =
       \<lparr>isValid = False, expectedDigit = Some ''64'',
        receivedDigit =
          Some (verifyingDigit
                  (buildDecomposedCNJ noDistricts ''0001327'' ''65'' ''2018'' ''8'' ''26'' ''0158'')),
        error = Some (''D'' @ [CHR 0xED] @ ''gito verificador inv'' @ [CHR 0xE1]
                      @ ''lido. Esperado: '' @ ''64'' @ '', Recebido: ''
                      @ verifyingDigit
                          (buildDecomposedCNJ noDistricts ''0001327'' ''65'' ''2018'' ''8'' ''26''
                             ''0158''))\<rparr>"
    by blast
  from d1 r1 c2 r2 r3 show ?thesis by simp
qed

lemma decompose_of_format:
  assumes "length x = 20" and "list_all isDigit x"
  shows "decomposeCNJ D
     (substring 0 7 x @ CHR ''-'' # substring 7 9 x @ CHR ''.'' # substring 9 13 x
        @ CHR ''.'' # substring 13 14 x @ CHR ''.'' # substring 14 16 x
        @ CHR ''.'' # substring 16 20 x)
     = decomposeCNJ D x"
proof -
  have len: "length (substring 0 7 x @ substring 7 9 x @ substring 9 13 x @ substring 13 14 x
                     @ substring 14 16 x @ substring 16 20 x) = 20"
    using assms(1) by (simp add: substring_def)
  show ?thesis
    unfolding decompose_compact [OF assms]
    by (rule decompose_masked) (use len in \<open>simp_all add: substring_digits [OF assms(2)]\<close>)
qed

text \<open>
  Claim C3. For a compact identifier \<open>x\<close> of exactly 20 decimal digits, \<open>formatCNJ\<close> returns
  the masked form \<open>m\<close>, and \<open>decomposeCNJ\<close> returns the same record for \<open>x\<close> and for \<open>m\<close>:
  the same six fields, and the same derived fields. The masked form is also the
  \<open>lawsuitCNJFormat\<close> of that record, so decomposing, masking and decomposing again gives
  the record back. In particular \<open>00013276420188260158\<close> and \<open>0001327-64.2018.8.26.0158\<close>
  decompose to the same record.
\<close>

theorem decomposeCNJ_mask_roundtrip:
  "(length x = 20 \<and> list_all isDigit x \<longrightarrow>
      (\<exists>m d. formatCNJ x = Inr m \<and> decomposeCNJ D x = Inr d \<and> decomposeCNJ D m = Inr d
             \<and> lawsuitCNJFormat d = m))
   \<and> decomposeCNJ D ''00013276420188260158'' = decomposeCNJ D ''0001327-64.2018.8.26.0158''"
proof (intro conjI impI)
  assume a: "length x = 20 \<and> list_all isDigit x"
  then have l: "length x = 20" and g: "list_all isDigit x" by simp_all
  let ?m = "substring 0 7 x @ CHR ''-'' # substring 7 9 x @ CHR ''.'' # substring 9 13 x
        @ CHR ''.'' # substring 13 14 x @ CHR ''.'' # substring 14 16 x
        @ CHR ''.'' # substring 16 20 x"
  let ?d = "buildDecomposedCNJ D (substring 0 7 x) (substring 7 9 x) (substring 9 13 x)
            (substring 13 14 x) (substring 14 16 x) (substring 16 20 x)"
  have 1: "formatCNJ x = Inr ?m" by (rule formatCNJ_digits [OF l g])
  have 2: "decomposeCNJ D x = Inr ?d" by (rule decompose_compact [OF l g])
  have 3: "decomposeCNJ D ?m = Inr ?d" using decompose_of_format [OF l g] 2 by simp
  have 4: "lawsuitCNJFormat ?d = ?m" by simp
  from 1 2 3 4 show "\<exists>m d. formatCNJ x = Inr m \<and> decomposeCNJ D x = Inr d
      \<and> decomposeCNJ D m = Inr d \<and> lawsuitCNJFormat d = m"
    by blast
next
  have "length ''00013276420188260158'' = 20" "list_all isDigit ''00013276420188260158''"
    by (simp_all add: isDigit_def)
  from decompose_of_format [OF this, of D]
  show "decomposeCNJ D ''00013276420188260158'' = decomposeCNJ D ''0001327-64.2018.8.26.0158''"
    by (simp add: substring_def)
qed

theorem decomposeCNJ_mask_roundtrip_witness:
  "length ''00013276420188260158'' = 20 \<and> list_all isDigit ''00013276420188260158''
   \<and> formatCNJ ''00013276420188260158'' = Inr ''0001327-64.2018.8.26.0158''
   \<and> decomposeCNJ noDistricts ''0001327-64.2018.8.26.0158''
       = decomposeCNJ noDistricts ''00013276420188260158''
   \<and> lawsuitCNJFormat (projr (decomposeCNJ noDistricts ''00013276420188260158''))
       = ''0001327-64.2018.8.26.0158''"
proof -
  have h: "length ''00013276420188260158'' = 20 \<and> list_all isDigit ''00013276420188260158''"
    by (simp add: isDigit_def)
  have f: "formatCNJ ''00013276420188260158'' = Inr ''0001327-64.2018.8.26.0158''"
    by code_simp
  from decomposeCNJ_mask_roundtrip [of "''00013276420188260158''" noDistricts] h
  obtain m d where "formatCNJ ''00013276420188260158'' = Inr m"
    and x: "decomposeCNJ noDistricts ''00013276420188260158'' = Inr d"
    and m: "decomposeCNJ noDistricts m = Inr d" and c: "lawsuitCNJFormat d = m"
    by blast
  with f have "m = ''0001327-64.2018.8.26.0158''" by simp
  with h f x m c show ?thesis by simp
qed

text \<open>
  Claim C5, as the code has it. \<open>decomposeCNJ\<close> checks the overall length and the
  separators, never the contents of the fields, so the invariant holds for well-formed
  input and not for every input it accepts. For an input of exactly 20 decimal digits,
  and for a masked input whose six parts are 7, 2, 4, 1, 2 and 4 decimal digits,
  \<open>decomposeCNJ\<close> returns, its six fields are the corresponding pieces of the input, the
  concatenation of the five fields other than the verifying digit consists of exactly 18
  decimal digits, and \<open>argNumber\<close> is that concatenation followed by \<open>00\<close>, exactly 20
  decimal digits. For every input on which it returns, \<open>argNumber\<close> is the concatenation
  of the five fields followed by \<open>00\<close>, and for an input without a hyphen the
  concatenation has exactly 18 characters and \<open>argNumber\<close> exactly 20.
\<close>

theorem decomposeCNJ_argNumber:
  "(decomposeCNJ D inp = Inr d \<longrightarrow>
       argNumber d = lawsuitNumber d @ protocolYear d @ segment d @ court d
                     @ DecomposedCNJ.sourceUnit d @ ''00''
     \<and> (\<not> includes_str inp (CHR ''-'') \<longrightarrow>
          length (lawsuitNumber d @ protocolYear d @ segment d @ court d
                  @ DecomposedCNJ.sourceUnit d) = 18
          \<and> length (argNumber d) = 20))
   \<and> (length x = 20 \<and> list_all isDigit x \<longrightarrow>
       (\<exists>r. decomposeCNJ D x = Inr r
          \<and> lawsuitNumber r = substring 0 7 x \<and> verifyingDigit r = substring 7 9 x
          \<and> protocolYear r = substring 9 13 x \<and> segment r = substring 13 14 x
          \<and> court r = substring 14 16 x \<and> DecomposedCNJ.sourceUnit r = substring 16 20 x
          \<and> length (lawsuitNumber r @ protocolYear r @ segment r @ court r
                     @ DecomposedCNJ.sourceUnit r) = 18
          \<and> list_all isDigit (lawsuitNumber r @ protocolYear r @ segment r @ court r
                               @ DecomposedCNJ.sourceUnit r)
          \<and> argNumber r = lawsuitNumber r @ protocolYear r @ segment r @ court r
                           @ DecomposedCNJ.sourceUnit r @ ''00''
          \<and> length (argNumber r) = 20 \<and> list_all isDigit (argNumber r)))
   \<and> (digitsExactly 7 a \<and> digitsExactly 2 b \<and> digitsExactly 4 c \<and> digitsExactly 1 e
        \<and> digitsExactly 2 f \<and> digitsExactly 4 g \<longrightarrow>
       (\<exists>r. decomposeCNJ D (a @ ''-'' @ b @ ''.'' @ c @ ''.'' @ e @ ''.'' @ f @ ''.'' @ g) = Inr r
          \<and> lawsuitNumber r = a \<and> verifyingDigit r = b \<and> protocolYear r = c
          \<and> segment r = e \<and> court r = f \<and> DecomposedCNJ.sourceUnit r = g
          \<and> length (lawsuitNumber r @ protocolYear r @ segment r @ court r
                     @ DecomposedCNJ.sourceUnit r) = 18
          \<and> list_all isDigit (lawsuitNumber r @ protocolYear r @ segment r @ court r
                               @ DecomposedCNJ.sourceUnit r)
          \<and> argNumber r = lawsuitNumber r @ protocolYear r @ segment r @ court r
                           @ DecomposedCNJ.sourceUnit r @ ''00''
          \<and> length (argNumber r) = 20 \<and> list_all isDigit (argNumber r)))"
proof (intro conjI impI)
  assume dec: "decomposeCNJ D inp = Inr d"
  then obtain a' b' c' e' f' g' where d: "d = buildDecomposedCNJ D a' b' c' e' f' g'"
    using decompose_build by blast
  show "argNumber d = lawsuitNumber d @ protocolYear d @ segment d @ court d
                     @ DecomposedCNJ.sourceUnit d @ ''00''"
    by (simp add: d)
next
  assume dec: "decomposeCNJ D inp = Inr d" and nh: "\<not> includes_str inp (CHR ''-'')"
  from decompose_compact_build [OF dec nh]
  show "length (lawsuitNumber d @ protocolYear d @ segment d @ court d
                @ DecomposedCNJ.sourceUnit d) = 18"
    and "length (argNumber d) = 20"
    by (auto simp: substring_def)
next
  assume h: "length x = 20 \<and> list_all isDigit x"
  then have l: "length x = 20" and g: "list_all isDigit x" by simp_all
  have zero: "isDigit CHR ''0''" by (simp add: isDigit_def)
  let ?r = "buildDecomposedCNJ D (substring 0 7 x) (substring 7 9 x) (substring 9 13 x)
              (substring 13 14 x) (substring 14 16 x) (substring 16 20 x)"
  have 1: "decomposeCNJ D x = Inr ?r" by (rule decompose_compact [OF l g])
  have 2: "length (lawsuitNumber ?r @ protocolYear ?r @ segment ?r @ court ?r
                   @ DecomposedCNJ.sourceUnit ?r) = 18"
    "length (argNumber ?r) = 20"
    using l by (simp_all add: substring_def)
  have 3: "list_all isDigit (lawsuitNumber ?r @ protocolYear ?r @ segment ?r @ court ?r
                             @ DecomposedCNJ.sourceUnit ?r)"
    "list_all isDigit (argNumber ?r)"
    using zero by (simp_all add: substring_digits [OF g])
  show "\<exists>r. decomposeCNJ D x = Inr r
          \<and> lawsuitNumber r = substring 0 7 x \<and> verifyingDigit r = substring 7 9 x
          \<and> protocolYear r = substring 9 13 x \<and> segment r = substring 13 14 x
          \<and> court r = substring 14 16 x \<and> DecomposedCNJ.sourceUnit r = substring 16 20 x
          \<and> length (lawsuitNumber r @ protocolYear r @ segment r @ court r
                     @ DecomposedCNJ.sourceUnit r) = 18
          \<and> list_all isDigit (lawsuitNumber r @ protocolYear r @ segment r @ court r
                               @ DecomposedCNJ.sourceUnit r)
          \<and> argNumber r = lawsuitNumber r @ protocolYear r @ segment r @ court r
                           @ DecomposedCNJ.sourceUnit r @ ''00''
          \<and> length (argNumber r) = 20 \<and> list_all isDigit (argNumber r)"
    by (rule exI [of _ ?r]) (use 1 2 3 in simp)
next
  assume h: "digitsExactly 7 a \<and> digitsExactly 2 b \<and> digitsExactly 4 c \<and> digitsExactly 1 e
        \<and> digitsExactly 2 f \<and> digitsExactly 4 g"
  then have ds: "list_all isDigit a" "list_all isDigit b" "list_all isDigit c"
      "list_all isDigit e" "list_all isDigit f" "list_all isDigit g"
    and ls: "length a = 7" "length b = 2" "length c = 4" "length e = 1" "length f = 2"
      "length g = 4"
    by (simp_all add: digitsExactly_def)
  have zero: "isDigit CHR ''0''" by (simp add: isDigit_def)
  let ?r = "buildDecomposedCNJ D a b c e f g"
  have 1: "decomposeCNJ D (a @ ''-'' @ b @ ''.'' @ c @ ''.'' @ e @ ''.'' @ f @ ''.'' @ g) = Inr ?r"
    using decompose_masked [OF ds, of D] ls by simp
  have 2: "length (lawsuitNumber ?r @ protocolYear ?r @ segment ?r @ court ?r
                   @ DecomposedCNJ.sourceUnit ?r) = 18"
    "length (argNumber ?r) = 20"
    using ls by simp_all
  have 3: "list_all isDigit (lawsuitNumber ?r @ protocolYear ?r @ segment ?r @ court ?r
                             @ DecomposedCNJ.sourceUnit ?r)"
    "list_all isDigit (argNumber ?r)"
    using zero ds by simp_all
  show "\<exists>r. decomposeCNJ D (a @ ''-'' @ b @ ''.'' @ c @ ''.'' @ e @ ''.'' @ f @ ''.'' @ g) = Inr r
          \<and> lawsuitNumber r = a \<and> verifyingDigit r = b \<and> protocolYear r = c
          \<and> segment r = e \<and> court r = f \<and> DecomposedCNJ.sourceUnit r = g
          \<and> length (lawsuitNumber r @ protocolYear r @ segment r @ court r
                     @ DecomposedCNJ.sourceUnit r) = 18
          \<and> list_all isDigit (lawsuitNumber r @ protocolYear r @ segment r @ court r
                               @ DecomposedCNJ.sourceUnit r)
          \<and> argNumber r = lawsuitNumber r @ protocolYear r @ segment r @ court r
                           @ DecomposedCNJ.sourceUnit r @ ''00''
          \<and> length (argNumber r) = 20 \<and> list_all isDigit (argNumber r)"
    by (rule exI [of _ ?r]) (use 1 2 3 in simp)
qed

theorem decomposeCNJ_argNumber_witness:
  "length ''00013276420188260158'' = 20 \<and> list_all isDigit ''00013276420188260158''
   \<and> digitsExactly 7 ''0001327'' \<and> digitsExactly 2 ''64'' \<and> digitsExactly 4 ''2018''
   \<and> digitsExactly 1 ''8'' \<and> digitsExactly 2 ''26'' \<and> digitsExactly 4 ''0158''
   \<and> decomposeCNJ noDistricts ''00013276420188260158''
       = Inr (buildDecomposedCNJ noDistricts ''0001327'' ''64'' ''2018'' ''8'' ''26'' ''0158'')
   \<and> decomposeCNJ noDistricts ''0001327-64.2018.8.26.0158''
       = Inr (buildDecomposedCNJ noDistricts ''0001327'' ''64'' ''2018'' ''8'' ''26'' ''0158'')
   \<and> argNumber (buildDecomposedCNJ noDistricts ''0001327'' ''64'' ''2018'' ''8'' ''26'' ''0158'')
       = ''00013272018826015800''
   \<and> list_all isDigit
        (argNumber (buildDecomposedCNJ noDistricts ''0001327'' ''64'' ''2018'' ''8'' ''26'' ''0158''))"
proof -
  let ?r = "buildDecomposedCNJ noDistricts ''0001327'' ''64'' ''2018'' ''8'' ''26'' ''0158''"
  note t = decomposeCNJ_argNumber [where D = noDistricts and x = "''00013276420188260158''"
      and inp = "''00013276420188260158''" and d = ?r
      and a = "''0001327''" and b = "''64''" and c = "''2018''" and e = "''8''"
      and f = "''26''" and g = "''0158''"]
  have hx: "length ''00013276420188260158'' = 20 \<and> list_all isDigit ''00013276420188260158''"
    by (simp add: isDigit_def)
  have hm: "digitsExactly 7 ''0001327'' \<and> digitsExactly 2 ''64'' \<and> digitsExactly 4 ''2018''
      \<and> digitsExactly 1 ''8'' \<and> digitsExactly 2 ''26'' \<and> digitsExactly 4 ''0158''"
    by (simp add: digitsExactly_def isDigit_def)
  have dec: "decomposeCNJ noDistricts ''00013276420188260158'' = Inr ?r"
    by code_simp
  have decm: "decomposeCNJ noDistricts ''0001327-64.2018.8.26.0158'' = Inr ?r"
    by (rule decompose_example)
  from t [THEN conjunct1, rule_format, OF dec]
  have 1: "argNumber ?r = ''00013272018826015800''" by simp
  from t [THEN conjunct2, THEN conjunct1, rule_format, OF hx]
  have 2: "list_all isDigit (argNumber ?r)" by (simp add: dec substring_def)
  from t [THEN conjunct2, THEN conjunct2, rule_format, OF hm]
  have 3: "list_all isDigit (argNumber ?r)" by (simp add: decm [simplified])
  from hx hm dec decm 1 2 3 show ?thesis by (intro conjI) simp_all
qed

text \<open>
  The claim as the specification states it fails: a masked input whose parts have other
  widths is decomposed without error, here into fields whose concatenation has 14
  characters and an \<open>argNumber\<close> of 16.
\<close>

theorem decomposeCNJ_argNumber_counterexample:
  "decomposeCNJ noDistricts ''1-2.3.4.5.6789012345''
     = Inr (buildDecomposedCNJ noDistricts ''1'' ''2'' ''3'' ''4'' ''5'' ''6789012345'')
   \<and> length (lawsuitNumber (projr (decomposeCNJ noDistricts ''1-2.3.4.5.6789012345''))
             @ protocolYear (projr (decomposeCNJ noDistricts ''1-2.3.4.5.6789012345''))
             @ segment (projr (decomposeCNJ noDistricts ''1-2.3.4.5.6789012345''))
             @ court (projr (decomposeCNJ noDistricts ''1-2.3.4.5.6789012345''))
             @ DecomposedCNJ.sourceUnit (projr (decomposeCNJ noDistricts ''1-2.3.4.5.6789012345'')))
       = 14
   \<and> argNumber (projr (decomposeCNJ noDistricts ''1-2.3.4.5.6789012345'')) = ''1345678901234500''"
proof -
  have dec: "decomposeCNJ noDistricts ''1-2.3.4.5.6789012345''
     = Inr (buildDecomposedCNJ noDistricts ''1'' ''2'' ''3'' ''4'' ''5'' ''6789012345'')"
    by code_simp
  show ?thesis by (simp add: dec)
qed

text \<open>
  Claim C6, as the code has it. \<open>calculateVerifyingDigit\<close> fails exactly when \<open>BigInt\<close>
  rejects its argument, and then with the calculation error. Every non-empty string of
  decimal digits is accepted. \<open>BigInt\<close> accepts more than that: the empty string and
  white space (read as zero), a sign, white space around the digits, and the prefixes
  \<open>0x\<close>, \<open>0o\<close> and \<open>0b\<close>.
\<close>

theorem calculateVerifyingDigit_fails_iff:
  "(isl (calculateVerifyingDigit s) \<longleftrightarrow> StringToBigInt s = None)
   \<and> (\<forall>e. calculateVerifyingDigit s = Inl e \<longrightarrow>
         e = calculationError \<and> etype e = CALCULATION_ERROR)
   \<and> (s \<noteq> [] \<and> list_all isDigit s \<longrightarrow> \<not> isl (calculateVerifyingDigit s))"
proof (intro conjI allI impI)
  show "isl (calculateVerifyingDigit s) \<longleftrightarrow> StringToBigInt s = None"
    by (simp add: calculateVerifyingDigit_def Let_def split: option.splits)
next
  fix e assume "calculateVerifyingDigit s = Inl e"
  then show "e = calculationError" by (rule calculate_error)
  then show "etype e = CALCULATION_ERROR" by (simp add: calculationError_facts)
next
  assume a: "s \<noteq> [] \<and> list_all isDigit s"
  then have "\<forall>c\<in>set s. isDigit c" by (simp add: list_all_iff)
  with a have "StringToBigInt s \<noteq> None" by (simp add: StringToBigInt_digits)
  then show "\<not> isl (calculateVerifyingDigit s)"
    by (auto simp: calculateVerifyingDigit_def Let_def)
qed

theorem calculateVerifyingDigit_fails_iff_witness:
  "calculateVerifyingDigit ''invalid'' = Inl calculationError
   \<and> etype calculationError = CALCULATION_ERROR
   \<and> ''00013272018826015800'' \<noteq> [] \<and> list_all isDigit ''00013272018826015800''
   \<and> \<not> isl (calculateVerifyingDigit ''00013272018826015800'')"
proof -
  have c: "calculateVerifyingDigit ''invalid'' = Inl calculationError" by code_simp
  have d: "''00013272018826015800'' \<noteq> [] \<and> list_all isDigit ''00013272018826015800''"
    by (simp add: isDigit_def)
  from calculateVerifyingDigit_fails_iff [of "''invalid''"] c
  have 1: "etype calculationError = CALCULATION_ERROR" by blast
  from calculateVerifyingDigit_fails_iff [of "''00013272018826015800''"] d
  have 2: "\<not> isl (calculateVerifyingDigit ''00013272018826015800'')" by blast
  from c d 1 2 show ?thesis by blast
qed

text \<open>
  The claim as the specification states it fails: the empty string is not a non-empty
  sequence of decimal digits, and the function returns \<open>98\<close> for it; for \<open>-5\<close> it returns
  the three characters \<open>103\<close>.
\<close>

theorem calculateVerifyingDigit_fails_iff_counterexample:
  "calculateVerifyingDigit [] = Inr ''98'' \<and> calculateVerifyingDigit ''-5'' = Inr ''103''"
  by code_simp

text \<open>
  Claim C7. For the court code \<open>00\<close>, \<open>getOriginCourt\<close> returns an original-lawsuit
  classification: for segment numbers 1, 2 and 3 the label is the segment's own name
  followed by its short code in parentheses, for 5 the Superior Labor Court (TST), for 6
  the Superior Electoral Court (TSE), for 7 and 9 the Superior Military Court (STM). For
  every other segment number, 4 and 8 among them, it fails with the invalid-court error.
\<close>

theorem getOriginCourt_original:
  "(number s = 1 \<or> number s = 2 \<or> number s = 3 \<longrightarrow>
      getOriginCourt ''00'' s =
        Inr \<lparr>originCourtType = courtTypeValue ORIGINAL_LAWSUIT,
             originCourtNumber = name s @ '' ('' @ short s @ '')''\<rparr>)
   \<and> (number s = 5 \<longrightarrow>
      getOriginCourt ''00'' s =
        Inr \<lparr>originCourtType = courtTypeValue ORIGINAL_LAWSUIT,
             originCourtNumber = ''Tribunal Superior do Trabalho (TST)''\<rparr>)
   \<and> (number s = 6 \<longrightarrow>
      getOriginCourt ''00'' s =
        Inr \<lparr>originCourtType = courtTypeValue ORIGINAL_LAWSUIT,
             originCourtNumber = ''Tribunal Superior Eleitoral (TSE)''\<rparr>)
   \<and> (number s = 7 \<or> number s = 9 \<longrightarrow>
      getOriginCourt ''00'' s =
        Inr \<lparr>originCourtType = courtTypeValue ORIGINAL_LAWSUIT,
             originCourtNumber = ''Superior Tribunal Militar (STM)''\<rparr>)
   \<and> (number s \<notin> set [1, 2, 3, 5, 6, 7, 9] \<longrightarrow>
      getOriginCourt ''00'' s = Inl (invalidCourt ''00'' (number s))
      \<and> etype (invalidCourt ''00'' (number s)) = INVALID_COURT)"
  by (auto simp: getOriginCourt_def SpecialCourtCode_ORIGINAL_def parseCourt00_def Let_def
      invalidCourt_def)

theorem getOriginCourt_original_witness:
  "getOriginCourt ''00'' \<lparr>number = 1, name = ''Supremo Tribunal Federal'', short = ''STF''\<rparr> =
     Inr \<lparr>originCourtType = courtTypeValue ORIGINAL_LAWSUIT,
          originCourtNumber = ''Supremo Tribunal Federal (STF)''\<rparr>
   \<and> getOriginCourt ''00'' \<lparr>number = 5, name = ''T'', short = ''TRT''\<rparr> =
     Inr \<lparr>originCourtType = courtTypeValue ORIGINAL_LAWSUIT,
          originCourtNumber = ''Tribunal Superior do Trabalho (TST)''\<rparr>
   \<and> getOriginCourt ''00'' \<lparr>number = 6, name = ''E'', short = ''TRE''\<rparr> =
     Inr \<lparr>originCourtType = courtTypeValue ORIGINAL_LAWSUIT,
          originCourtNumber = ''Tribunal Superior Eleitoral (TSE)''\<rparr>
   \<and> getOriginCourt ''00'' \<lparr>number = 9, name = ''M'', short = ''TJM''\<rparr> =
     Inr \<lparr>originCourtType = courtTypeValue ORIGINAL_LAWSUIT,
          originCourtNumber = ''Superior Tribunal Militar (STM)''\<rparr>
   \<and> getOriginCourt ''00'' \<lparr>number = 4, name = ''F'', short = ''TRF''\<rparr> = Inl (invalidCourt ''00'' 4)
   \<and> getOriginCourt ''00'' \<lparr>number = 8, name = ''J'', short = ''TJ''\<rparr> = Inl (invalidCourt ''00'' 8)
   \<and> etype (invalidCourt ''00'' 8) = INVALID_COURT"
  using getOriginCourt_original [of "\<lparr>number = 1, name = ''Supremo Tribunal Federal'', short = ''STF''\<rparr>"]
    getOriginCourt_original [of "\<lparr>number = 5, name = ''T'', short = ''TRT''\<rparr>"]
    getOriginCourt_original [of "\<lparr>number = 6, name = ''E'', short = ''TRE''\<rparr>"]
    getOriginCourt_original [of "\<lparr>number = 9, name = ''M'', short = ''TJM''\<rparr>"]
    getOriginCourt_original [of "\<lparr>number = 4, name = ''F'', short = ''TRF''\<rparr>"]
    getOriginCourt_original [of "\<lparr>number = 8, name = ''J'', short = ''TJ''\<rparr>"]
  by simp

text \<open>
  Claim C8. For a segment whose number is 1, 2 or 3 and every court code other than the
  special codes \<open>00\<close> and \<open>90\<close>, \<open>getOriginCourt\<close> fails with the invalid-court error:
  these segments admit no numeric court code. (A code that is not a number is rejected
  at once; a number passes \<open>isCourtValid\<close>, whose table entry 0 lets every number through,
  and is rejected by \<open>getCourtTypeAndNumber\<close>, which knows no court type for them.)
\<close>

theorem getOriginCourt_no_numeric_court:
  "number s \<in> set [1, 2, 3] \<Longrightarrow> crt \<noteq> ''00'' \<Longrightarrow> crt \<noteq> ''90'' \<Longrightarrow>
   isl (getOriginCourt crt s) \<and> etype (projl (getOriginCourt crt s)) = INVALID_COURT"
  by (auto simp: getOriginCourt_def SpecialCourtCode_ORIGINAL_def SpecialCourtCode_COUNCIL_def
      parseCourtOther_def isCourtValid_def MAX_COURT_BY_SEGMENT_def getCourtTypeAndNumber_def
      Let_def invalidCourt_def split: option.splits)

theorem getOriginCourt_no_numeric_court_witness:
  "number \<lparr>number = 1, name = ''Supremo Tribunal Federal'', short = ''STF''\<rparr> \<in> set [1, 2, 3]
   \<and> ''05'' \<noteq> ''00'' \<and> ''05'' \<noteq> ''90''
   \<and> isl (getOriginCourt ''05'' \<lparr>number = 1, name = ''Supremo Tribunal Federal'', short = ''STF''\<rparr>)
   \<and> etype (projl (getOriginCourt ''05''
                     \<lparr>number = 1, name = ''Supremo Tribunal Federal'', short = ''STF''\<rparr>))
       = INVALID_COURT"
  using getOriginCourt_no_numeric_court
    [of "\<lparr>number = 1, name = ''Supremo Tribunal Federal'', short = ''STF''\<rparr>" "''05''"]
  by simp

text \<open>
  Claim C9. \<open>getSourceUnit\<close> has no failing path. The code \<open>0000\<close> is classified as the
  original competence of the court and a code whose first character is \<open>9\<close> as the
  original competence of the appellate panel, whatever the segment. Every other code
  takes its type from the table of the segments: 1, 2 and 3 the court-level type,
  4 the judicial subsection, 5 the labor court unit, 6 the electoral zone, 7 and 9 the
  military auditor unit, 8 the civil forum; a segment number missing from the table
  gives the civil forum. The code itself is returned unchanged.
\<close>

theorem getSourceUnit_classification:
  "getSourceUnit ''0000'' s =
     \<lparr>SourceUnit.sourceUnitType = sourceUnitTypeValue COURT_UNIT_SINGLE, SourceUnit.sourceUnitNumber = ''0000''\<rparr>
   \<and> getSourceUnit (CHR ''9'' # rest) s =
     \<lparr>SourceUnit.sourceUnitType = sourceUnitTypeValue COURT_UNIT, SourceUnit.sourceUnitNumber = CHR ''9'' # rest\<rparr>
   \<and> (u \<noteq> ''0000'' \<and> (u = [] \<or> hd u \<noteq> CHR ''9'') \<longrightarrow>
        getSourceUnit u s =
          \<lparr>SourceUnit.sourceUnitType =
             sourceUnitTypeValue
               (if number s \<in> set [1, 2, 3] then COURT_UNIT_SINGLE
                else if number s = 4 then JUSTICE_SECTION
                else if number s = 5 then LABOR_UNIT
                else if number s = 6 then ELECTORAL_UNIT
                else if number s \<in> set [7, 9] then MILITARY_UNIT
                else CIVIL_UNIT),
           SourceUnit.sourceUnitNumber = u\<rparr>)"
  by (cases u)
     (auto simp: getSourceUnit_def isZeroSequence_def isFirstDigit9_def SOURCE_UNIT_CONFIG_def
        Let_def)

theorem getSourceUnit_classification_witness:
  "getSourceUnit ''0158'' \<lparr>number = 8, name = ''J'', short = ''TJ''\<rparr> =
     \<lparr>SourceUnit.sourceUnitType = ''foro'', SourceUnit.sourceUnitNumber = ''0158''\<rparr>
   \<and> getSourceUnit ''0158'' \<lparr>number = 12, name = ''X'', short = ''X''\<rparr> =
     \<lparr>SourceUnit.sourceUnitType = ''foro'', SourceUnit.sourceUnitNumber = ''0158''\<rparr>
   \<and> getSourceUnit ''0158'' \<lparr>number = 5, name = ''T'', short = ''TRT''\<rparr> =
     \<lparr>SourceUnit.sourceUnitType = ''vara do trabalho'', SourceUnit.sourceUnitNumber = ''0158''\<rparr>
   \<and> getSourceUnit ''9001'' \<lparr>number = 5, name = ''T'', short = ''TRT''\<rparr> =
     \<lparr>SourceUnit.sourceUnitType = sourceUnitTypeValue COURT_UNIT, SourceUnit.sourceUnitNumber = ''9001''\<rparr>"
  using getSourceUnit_classification [of "\<lparr>number = 8, name = ''J'', short = ''TJ''\<rparr>" "''001''" "''0158''"]
    getSourceUnit_classification [of "\<lparr>number = 12, name = ''X'', short = ''X''\<rparr>" "''001''" "''0158''"]
    getSourceUnit_classification [of "\<lparr>number = 5, name = ''T'', short = ''TRT''\<rparr>" "''001''" "''0158''"]
  by simp

text \<open>
  Claim C10, as the code has it. The district data is state that \<open>addDistrict\<close> changes.
  For every key other than \<open>__proto__\<close>: after \<open>addDistrict key r\<close>, \<open>getDistrictInfo key\<close>
  returns \<open>r\<close> and \<open>hasDistrict key\<close> holds, and \<open>getDistrictInfo\<close> and \<open>hasDistrict\<close>
  answer for every other key as before. For every key: every later \<open>decomposeCNJ\<close> whose
  district key (segment, court and source unit joined by dots) is \<open>key\<close> carries the
  \<open>sourceUnit\<close> of \<open>r\<close> as its district and the \<open>uf\<close> of \<open>r\<close>; such a key contains a dot,
  so it is neither \<open>__proto__\<close> nor the name of an inherited property.
\<close>

theorem addDistrict_observed:
  "(key \<noteq> ''__proto__'' \<longrightarrow>
      getDistrictInfo (addDistrict key r D) key = Some (DistrictValue r)
      \<and> hasDistrict (addDistrict key r D) key
      \<and> (\<forall>k. k \<noteq> key \<longrightarrow>
            getDistrictInfo (addDistrict key r D) k = getDistrictInfo D k
            \<and> hasDistrict (addDistrict key r D) k = hasDistrict D k))
   \<and> (\<forall>inp d. decomposeCNJ (addDistrict key r D) inp = Inr d
          \<and> generateDistrictKey (segment d) (court d) (DecomposedCNJ.sourceUnit d) = key \<longrightarrow>
         DecomposedCNJ.district d = DistrictInfo.sourceUnit r
         \<and> DecomposedCNJ.uf d = DistrictInfo.uf r)"
proof (intro conjI allI impI)
  assume n: "key \<noteq> ''__proto__''"
  then have upd: "addDistrict key r D = D\<lparr>entries := (entries D)(key \<mapsto> r)\<rparr>"
    by (simp add: addDistrict_def)
  show "getDistrictInfo (addDistrict key r D) key = Some (DistrictValue r)"
    by (simp add: upd getDistrictInfo_def getProperty_def)
  show "hasDistrict (addDistrict key r D) key"
    by (simp add: upd hasDistrict_def getProperty_def)
  fix k assume "k \<noteq> key"
  then have same: "getProperty (addDistrict key r D) k = getProperty D k"
    by (simp add: upd getProperty_def split: option.splits)
  show "getDistrictInfo (addDistrict key r D) k = getDistrictInfo D k"
    by (simp add: getDistrictInfo_def same)
  show "hasDistrict (addDistrict key r D) k = hasDistrict D k"
    by (simp add: hasDistrict_def same)
next
  fix inp d
  assume h: "decomposeCNJ (addDistrict key r D) inp = Inr d
          \<and> generateDistrictKey (segment d) (court d) (DecomposedCNJ.sourceUnit d) = key"
  then obtain a b c e f g where d: "d = buildDecomposedCNJ (addDistrict key r D) a b c e f g"
    using decompose_build by blast
  with h have k: "generateDistrictKey e f g = key" by simp
  have "CHR ''.'' \<in> set key" using districtKey_dotted [of e f g] by (simp only: k)
  moreover have "CHR ''.'' \<notin> set ''__proto__''" by simp
  ultimately have n: "key \<noteq> ''__proto__''" by blast
  then have own: "entries (addDistrict key r D) key = Some r"
    by (simp add: addDistrict_def)
  show "DecomposedCNJ.district d = DistrictInfo.sourceUnit r"
    by (simp add: d build_district k own)
  show "DecomposedCNJ.uf d = DistrictInfo.uf r"
    by (simp add: d build_district k own)
qed

theorem addDistrict_observed_witness:
  "''8.26.0158'' \<noteq> ''__proto__''
   \<and> ''8.26.0159'' \<noteq> ''8.26.0158''
   \<and> getDistrictInfo
        (addDistrict ''8.26.0158''
           \<lparr>DistrictInfo.sourceUnit = ''Foro A'', DistrictInfo.uf = ''SP'',
            DistrictInfo.district = ''Comarca A''\<rparr> noDistricts) ''8.26.0158''
       = Some (DistrictValue \<lparr>DistrictInfo.sourceUnit = ''Foro A'', DistrictInfo.uf = ''SP'',
            DistrictInfo.district = ''Comarca A''\<rparr>)
   \<and> getDistrictInfo
        (addDistrict ''8.26.0158''
           \<lparr>DistrictInfo.sourceUnit = ''Foro A'', DistrictInfo.uf = ''SP'',
            DistrictInfo.district = ''Comarca A''\<rparr> noDistricts) ''8.26.0159'' = None
   \<and> DecomposedCNJ.uf
        (buildDecomposedCNJ
           (addDistrict ''8.26.0158''
              \<lparr>DistrictInfo.sourceUnit = ''Foro A'', DistrictInfo.uf = ''SP'',
               DistrictInfo.district = ''Comarca A''\<rparr> noDistricts)
           ''0001327'' ''64'' ''2018'' ''8'' ''26'' ''0158'') = ''SP''
   \<and> DecomposedCNJ.district
        (buildDecomposedCNJ
           (addDistrict ''8.26.0158''
              \<lparr>DistrictInfo.sourceUnit = ''Foro A'', DistrictInfo.uf = ''SP'',
               DistrictInfo.district = ''Comarca A''\<rparr> noDistricts)
           ''0001327'' ''64'' ''2018'' ''8'' ''26'' ''0158'') = ''Foro A''"
proof -
  let ?r = "\<lparr>DistrictInfo.sourceUnit = ''Foro A'', DistrictInfo.uf = ''SP'',
             DistrictInfo.district = ''Comarca A''\<rparr>"
  let ?D = "addDistrict ''8.26.0158'' ?r noDistricts"
  let ?d = "buildDecomposedCNJ ?D ''0001327'' ''64'' ''2018'' ''8'' ''26'' ''0158''"
  note t = addDistrict_observed [of "''8.26.0158''" ?r noDistricts]
  have p: "''8.26.0158'' \<noteq> ''__proto__''" by simp
  note own = t [THEN conjunct1, rule_format, OF p, THEN conjunct1]
  note others = t [THEN conjunct1, rule_format, OF p, THEN conjunct2, THEN conjunct2,
      rule_format]
  note later = t [THEN conjunct2, rule_format]
  have n: "''8.26.0159'' \<noteq> ''8.26.0158''" by simp
  have none: "getDistrictInfo noDistricts ''8.26.0159'' = None"
    by (simp add: getDistrictInfo_def dotted_key_own noDistricts_def)
  have 1: "getDistrictInfo ?D ''8.26.0159'' = None"
    using others [OF n] by (simp only: none)
  have dec: "decomposeCNJ ?D ''0001327-64.2018.8.26.0158'' = Inr ?d"
    by (rule decompose_example)
  have key: "generateDistrictKey (segment ?d) (court ?d) (DecomposedCNJ.sourceUnit ?d) = ''8.26.0158''"
    by (simp add: generateDistrictKey_def)
  have 2: "DecomposedCNJ.district ?d = DistrictInfo.sourceUnit ?r
      \<and> DecomposedCNJ.uf ?d = DistrictInfo.uf ?r"
    by (rule later [OF conjI [OF dec key]])
  have 3: "DecomposedCNJ.uf ?d = ''SP''" "DecomposedCNJ.district ?d = ''Foro A''"
    using 2 by simp_all
  show ?thesis by (intro conjI p n own 1 3)
qed

text \<open>
  The claim as the specification states it, for every key, fails at the key \<open>__proto__\<close>:
  \<open>DISTRICTS\<close> is a plain object, so the assignment \<open>DISTRICTS['__proto__'] = r\<close> adds no
  entry and makes \<open>r\<close> the prototype of \<open>DISTRICTS\<close>. From the dataset with no entry,
  \<open>hasDistrict('uf')\<close> was false and is true afterwards, and \<open>getDistrictInfo('uf')\<close> was
  \<open>null\<close> and is the string \<open>SP\<close> afterwards, although \<open>uf\<close> is another key.
\<close>

theorem addDistrict_observed_counterexample:
  "''uf'' \<noteq> ''__proto__''
   \<and> \<not> hasDistrict noDistricts ''uf''
   \<and> hasDistrict
        (addDistrict ''__proto__''
           \<lparr>DistrictInfo.sourceUnit = ''Foro A'', DistrictInfo.uf = ''SP'',
            DistrictInfo.district = ''Comarca A''\<rparr> noDistricts) ''uf''
   \<and> getDistrictInfo noDistricts ''uf'' = None
   \<and> getDistrictInfo
        (addDistrict ''__proto__''
           \<lparr>DistrictInfo.sourceUnit = ''Foro A'', DistrictInfo.uf = ''SP'',
            DistrictInfo.district = ''Comarca A''\<rparr> noDistricts) ''uf''
       = Some (StringValue ''SP'')"
  by (simp add: hasDistrict_def getDistrictInfo_def getProperty_def prototypeLookup_def
      addDistrict_def noDistricts_def objectPrototypeMethods_def)

text \<open>
  Claim C4. The specification promises that every error of \<open>processCSV\<close> carries the
  1-based number of its line in the original text, also after blank lines. The code
  numbers the lines after the blank ones have been filtered out: in the text of four
  lines below (valid, blank, malformed, valid) the malformed line is the third, and the
  error recorded for it has line number 2. Three lines are processed and there is one
  error, as the scenario says.
\<close>

theorem processCSV_line_after_blank:
  "processCSV noDistricts
     (''0001327-64.2018.8.26.0158'' @ [CHR 0x0A] @ [CHR 0x0A] @ ''invalid-cnj'' @ [CHR 0x0A]
        @ ''0001328-12.2019.8.26.0159'') \<lparr>separator = None\<rparr> =
   \<lparr>totalProcessed = 3, validCount = 2, invalidCount = 1,
    errors = [\<lparr>line = 2, cnj = ''invalid-cnj'',
               error = ''Tamanho CNJ inv'' @ [CHR 0xE1] @ ''lido: 11. Esperado: 20 caracteres''\<rparr>]\<rparr>"
  by code_simp

end
